theory Spec2Isabelle
  imports Complex_Main
begin

section \<open>Data model\<close>

text \<open>
  A shallow embedding of \<^verbatim>\<open>src/learn.py\<close>: the class \<^verbatim>\<open>HyperoptSearchCV\<close>, the function
  \<^verbatim>\<open>plot_feature_importance\<close> and \<^verbatim>\<open>main\<close>.

  Feature matrices are lists of rows, target and prediction vectors are lists; floating
  point numbers are idealised as reals. A keyword dictionary (\<^verbatim>\<open>**kwargs\<close>, a
  hyperparameter configuration) is an association list.
\<close>

type_synonym matrix = "real list list"
type_synonym vector = "real list"

datatype pyval = PInt int | PFloat real | PStr string | PBool bool

type_synonym config = "(string \<times> pyval) list"

text \<open>
  Objects live in a store and are referred to by their index there, so that two
  attributes holding the same object are told apart from two attributes holding equal
  copies.
\<close>

type_synonym addr = nat

text \<open>
  Exceptions, by their Python class. \<^verbatim>\<open>ValueError\<close> is what scikit-learn's input
  validation raises (the specification's ShapeMismatchError), \<^verbatim>\<open>AttributeError\<close> is what
  reading or deleting a missing attribute raises, \<^verbatim>\<open>NotFittedError\<close> is scikit-learn's.
  \<^verbatim>\<open>InvalidReference\<close> is the model's answer to an index outside the store, which no
  Python program can produce.
\<close>

datatype error =
    ValueError string
  | AttributeError string
  | KeyError string
  | IOError string
  | NotFittedError
  | InvalidReference

text \<open>
  The instance attributes of a \<^verbatim>\<open>HyperoptSearchCV\<close>. The first seven are assigned by
  \<^verbatim>\<open>__init__\<close>. The others are absent (\<open>None\<close>) until something assigns them; the names
  carry a prime because an Isabelle name cannot end in an underscore. The attribute
  \<^verbatim>\<open>y_\<close> (lower case) is read by \<^verbatim>\<open>__objective\<close>; no method of the class assigns it.
\<close>

record ('sp, 'cv) adapter =
  estimator :: addr
  space :: 'sp
  n_iter :: int
  scoring :: "string option"
  cv :: "'cv option"
  n_jobs :: int
  verbose :: int
  X_' :: "matrix option"
  Y_' :: "vector option"
  y_' :: "vector option"
  best_params_' :: "config option"
  best_estimator_' :: "addr option"

text \<open>What a bar chart written by \<^verbatim>\<open>savefig\<close> shows, and what a file holds.\<close>

record chart =
  bars :: vector
  xlim :: "real \<times> real"
  ylim :: "real \<times> real"
  xlabel :: string
  ylabel :: string

datatype 'e blob = Pickle 'e | Table matrix | Image chart

text \<open>Calls that leave the module, in the order they are made.\<close>

datatype event =
    Fmin_call
  | Cross_val_score_call addr
  | Fit_call addr
  | Predict_call addr
  | RandomizedSearchCV_call addr
  | Savefig_call string
  | Dump_call addr string

text \<open>
  The state a call runs in: the store of estimator objects, the store of
  \<^verbatim>\<open>HyperoptSearchCV\<close> instances, the file system, the process-wide plotting state of
  seaborn and matplotlib, and the trace of external calls. An exception leaves the
  state as it was when it was raised, so every operation returns its result or error
  together with the state.
\<close>

record ('e, 'sp, 'cv) world =
  estimators :: "'e list"
  adapters :: "('sp, 'cv) adapter list"
  files :: "string \<Rightarrow> 'e blob option"
  sns_style :: string
  rc_font_family :: string
  figures :: nat
  trace :: "event list"

text \<open>
  The settings \<^verbatim>\<open>main\<close> passes to \<^verbatim>\<open>RandomizedSearchCV\<close>, and the sampling
  distributions of its \<^verbatim>\<open>param_distributions\<close>.
\<close>

datatype dist = Choice "real list" | Randint int int | Uniform real real

record search_settings =
  rs_scoring :: string
  rs_n_splits :: nat
  rs_test_size :: real
  rs_cv_random_state :: int
  rs_random_state :: int
  rs_n_iter :: int
  rs_verbose :: int
  rs_n_jobs :: int

text \<open>
  The libraries the module calls are not part of the repository; they are parameters.
  An estimator object of scikit-learn is a value of the opaque type \<open>'e\<close>:
  \<^item> \<open>sk_new\<close> is a constructor call (class name, keyword arguments);
  \<^item> \<open>sk_clone\<close> is \<^verbatim>\<open>sklearn.base.clone\<close>: the state of a new, unfitted object;
  \<^item> \<open>sk_set_params\<close>, \<open>sk_fit\<close> give the object's state after the call, or the
    exception it raised (the object is then taken to be as before); both return the
    object itself in Python;
  \<^item> \<open>sk_predict\<close> reads the object and the input only;
  \<^item> \<open>sk_feature_importances\<close> is the attribute \<^verbatim>\<open>feature_importances_\<close>, when the
    object has one;
  \<^item> \<open>cross_val_score\<close> gives one score per fold (it fits clones of the estimator it is
    given, which it leaves alone);
  \<^item> \<open>tpe_suggest\<close> is the point hyperopt's algorithm proposes next, from the space and
    the trials so far (its random state is part of the function);
  \<^item> \<open>randomized_search\<close> is \<^verbatim>\<open>RandomizedSearchCV(...).fit(X, Y)\<close>: the state of its
    \<^verbatim>\<open>best_estimator_\<close>, a new object, and its \<^verbatim>\<open>best_params_\<close>.
\<close>

record ('e, 'sp, 'cv) env =
  sk_new :: "string \<Rightarrow> config \<Rightarrow> 'e"
  sk_clone :: "'e \<Rightarrow> 'e"
  sk_set_params :: "'e \<Rightarrow> config \<Rightarrow> error + 'e"
  sk_fit :: "'e \<Rightarrow> matrix \<Rightarrow> vector \<Rightarrow> error + 'e"
  sk_predict :: "'e \<Rightarrow> matrix \<Rightarrow> error + vector"
  sk_feature_importances :: "'e \<Rightarrow> vector option"
  cross_val_score ::
    "'e \<Rightarrow> matrix \<Rightarrow> vector \<Rightarrow> string option \<Rightarrow> 'cv option \<Rightarrow> int \<Rightarrow> int \<Rightarrow> error + real list"
  tpe_suggest :: "'sp \<Rightarrow> (config \<times> real) list \<Rightarrow> config"
  randomized_search ::
    "'e \<Rightarrow> (string \<times> dist) list \<Rightarrow> search_settings \<Rightarrow> matrix \<Rightarrow> vector \<Rightarrow> error + 'e \<times> config"

section \<open>Stores\<close>

definition deref :: "'a list \<Rightarrow> addr \<Rightarrow> 'a option" where
  "deref xs i = (if i < length xs then Some (xs ! i) else None)"

definition update_adapter ::
  "addr \<Rightarrow> (('sp, 'cv) adapter \<Rightarrow> ('sp, 'cv) adapter) \<Rightarrow> ('e, 'sp, 'cv) world \<Rightarrow> ('e, 'sp, 'cv) world" where
  "update_adapter self f w =
     (case deref (adapters w) self of
        None \<Rightarrow> w
      | Some a \<Rightarrow> w\<lparr>adapters := (adapters w)[self := f a]\<rparr>)"

definition new_estimator :: "'e \<Rightarrow> ('e, 'sp, 'cv) world \<Rightarrow> addr \<times> ('e, 'sp, 'cv) world" where
  "new_estimator e w = (length (estimators w), w\<lparr>estimators := estimators w @ [e]\<rparr>)"

definition record_call :: "event \<Rightarrow> ('e, 'sp, 'cv) world \<Rightarrow> ('e, 'sp, 'cv) world" where
  "record_call ev w = w\<lparr>trace := trace w @ [ev]\<rparr>"

section \<open>Calls on estimator objects\<close>

text \<open>\<^verbatim>\<open>clone(est)\<close>: a new object in the store.\<close>

definition clone ::
  "('e, 'sp, 'cv) env \<Rightarrow> addr \<Rightarrow> ('e, 'sp, 'cv) world \<Rightarrow> (error + addr) \<times> ('e, 'sp, 'cv) world" where
  "clone E est w =
     (case deref (estimators w) est of
        None \<Rightarrow> (Inl InvalidReference, w)
      | Some e \<Rightarrow> (case new_estimator (sk_clone E e) w of (c, w') \<Rightarrow> (Inr c, w')))"

text \<open>\<^verbatim>\<open>est.set_params(**kwargs)\<close>: changes the object in place and returns it.\<close>

definition set_params ::
  "('e, 'sp, 'cv) env \<Rightarrow> addr \<Rightarrow> config \<Rightarrow> ('e, 'sp, 'cv) world \<Rightarrow> (error + addr) \<times> ('e, 'sp, 'cv) world" where
  "set_params E est kwargs w =
     (case deref (estimators w) est of
        None \<Rightarrow> (Inl InvalidReference, w)
      | Some e \<Rightarrow>
          (case sk_set_params E e kwargs of
             Inl err \<Rightarrow> (Inl err, w)
           | Inr e' \<Rightarrow> (Inr est, w\<lparr>estimators := (estimators w)[est := e']\<rparr>)))"

text \<open>\<^verbatim>\<open>est.fit(X, Y)\<close>: changes the object in place and returns it.\<close>

definition estimator_fit ::
  "('e, 'sp, 'cv) env \<Rightarrow> addr \<Rightarrow> matrix \<Rightarrow> vector \<Rightarrow> ('e, 'sp, 'cv) world \<Rightarrow>
     (error + addr) \<times> ('e, 'sp, 'cv) world" where
  "estimator_fit E est X Y w =
     (case deref (estimators w) est of
        None \<Rightarrow> (Inl InvalidReference, w)
      | Some e \<Rightarrow>
          (let w1 = record_call (Fit_call est) w in
           case sk_fit E e X Y of
             Inl err \<Rightarrow> (Inl err, w1)
           | Inr e' \<Rightarrow> (Inr est, w1\<lparr>estimators := (estimators w1)[est := e']\<rparr>)))"

text \<open>\<^verbatim>\<open>est.predict(X)\<close>.\<close>

definition estimator_predict ::
  "('e, 'sp, 'cv) env \<Rightarrow> addr \<Rightarrow> matrix \<Rightarrow> ('e, 'sp, 'cv) world \<Rightarrow>
     (error + vector) \<times> ('e, 'sp, 'cv) world" where
  "estimator_predict E est X w =
     (case deref (estimators w) est of
        None \<Rightarrow> (Inl InvalidReference, w)
      | Some e \<Rightarrow> (sk_predict E e X, record_call (Predict_call est) w))"

section \<open>Input validation of scikit-learn\<close>

text \<open>
  \<^verbatim>\<open>check_array(X, accept_sparse=True)\<close> on a list of rows: the input has to be
  two-dimensional with at least one sample and one feature. \<^verbatim>\<open>check_X_y\<close> validates \<open>X\<close>
  in the same way and then compares the numbers of samples. Each failure is a
  \<^verbatim>\<open>ValueError\<close>.
\<close>

definition check_array :: "matrix \<Rightarrow> error + matrix" where
  "check_array X =
     (case X of
        [] \<Rightarrow> Inl (ValueError ''Expected 2D array, got 1D array instead'')
      | r # rs \<Rightarrow>
          if \<not> list_all (\<lambda>r'. length r' = length r) rs
          then Inl (ValueError ''setting an array element with a sequence'')
          else if length r = 0
          then Inl (ValueError ''Found array with 0 feature(s)'')
          else Inr X)"

definition check_X_y :: "matrix \<Rightarrow> vector \<Rightarrow> error + matrix \<times> vector" where
  "check_X_y X Y =
     (case check_array X of
        Inl e \<Rightarrow> Inl e
      | Inr X' \<Rightarrow>
          if length X' \<noteq> length Y
          then Inl (ValueError ''Found input variables with inconsistent numbers of samples'')
          else Inr (X', Y))"

text \<open>
  \<^verbatim>\<open>check_is_fitted(self, ['best_params_', 'best_estimator_'])\<close>: every listed
  attribute has to be present.
\<close>

definition check_is_fitted :: "('sp, 'cv) adapter \<Rightarrow> error + unit" where
  "check_is_fitted a =
     (case best_params_' a of
        None \<Rightarrow> Inl NotFittedError
      | Some _ \<Rightarrow>
          (case best_estimator_' a of
             None \<Rightarrow> Inl NotFittedError
           | Some _ \<Rightarrow> Inr ()))"

section \<open>The optimisation backend\<close>

text \<open>
  \<^verbatim>\<open>hyperopt.fmin(fn, space, algo=tpe.suggest, max_evals=n)\<close> is a library function;
  this is its documented behaviour. It runs \<^verbatim>\<open>max_evals\<close> trials one after the other; a
  trial asks the algorithm for a point, calls the objective on it and records the loss;
  an exception of the objective leaves \<^verbatim>\<open>fmin\<close> as it is. The result is the point of the
  trial with the least loss, the earliest one among equals; with no trial there is
  nothing to return and the call fails.
\<close>

fun fmin_loop ::
  "(config \<Rightarrow> 'w \<Rightarrow> (error + real) \<times> 'w) \<Rightarrow> ((config \<times> real) list \<Rightarrow> config) \<Rightarrow> nat \<Rightarrow>
     (config \<times> real) list \<Rightarrow> 'w \<Rightarrow> (error + (config \<times> real) list) \<times> 'w" where
  "fmin_loop fn suggest 0 trials w = (Inr trials, w)"
| "fmin_loop fn suggest (Suc n) trials w =
     (case fn (suggest trials) w of
        (Inl e, w') \<Rightarrow> (Inl e, w')
      | (Inr loss, w') \<Rightarrow> fmin_loop fn suggest n (trials @ [(suggest trials, loss)]) w')"

definition best_trial :: "(config \<times> real) list \<Rightarrow> (config \<times> real) option" where
  "best_trial trials =
     (case trials of
        [] \<Rightarrow> None
      | t # ts \<Rightarrow> Some (foldl (\<lambda>b t'. if snd t' < snd b then t' else b) t ts))"

definition fmin ::
  "('e, 'sp, 'cv) env \<Rightarrow>
   (config \<Rightarrow> ('e, 'sp, 'cv) world \<Rightarrow> (error + real) \<times> ('e, 'sp, 'cv) world) \<Rightarrow> 'sp \<Rightarrow> int \<Rightarrow>
   ('e, 'sp, 'cv) world \<Rightarrow> (error + config) \<times> ('e, 'sp, 'cv) world" where
  "fmin E fn sp max_evals w =
     (case fmin_loop fn (tpe_suggest E sp) (nat max_evals) [] (record_call Fmin_call w) of
        (Inl e, w') \<Rightarrow> (Inl e, w')
      | (Inr trials, w') \<Rightarrow>
          (case best_trial trials of
             None \<Rightarrow> (Inl (ValueError ''attempt to get argmin of an empty sequence''), w')
           | Some t \<Rightarrow> (Inr (fst t), w')))"

section \<open>HyperoptSearchCV\<close>

text \<open>\<^verbatim>\<open>HyperoptSearchCV(estimator, space, n_iter, scoring, cv, n_jobs, verbose)\<close>.\<close>

definition HyperoptSearchCV ::
  "addr \<Rightarrow> 'sp \<Rightarrow> int \<Rightarrow> string option \<Rightarrow> 'cv option \<Rightarrow> int \<Rightarrow> int \<Rightarrow> ('e, 'sp, 'cv) world \<Rightarrow>
     addr \<times> ('e, 'sp, 'cv) world" where
  "HyperoptSearchCV est sp n sc c nj vb w =
     (length (adapters w),
      w\<lparr>adapters := adapters w @
         [\<lparr>estimator = est, space = sp, n_iter = n, scoring = sc, cv = c, n_jobs = nj,
           verbose = vb, X_' = None, Y_' = None, y_' = None, best_params_' = None,
           best_estimator_' = None\<rparr>]\<rparr>)"

text \<open>
  \<^verbatim>\<open>scores.mean()\<close> of numpy. \<^verbatim>\<open>cross_val_score\<close> returns one score per fold and there
  are at least two folds; on no score at all numpy gives \<^verbatim>\<open>nan\<close>, which is no real.
\<close>

definition mean :: "real list \<Rightarrow> real" where
  "mean xs = sum_list xs / real (length xs)"

text \<open>
  \<^verbatim>\<open>__objective(self, kwargs)\<close>, lines 108 to 117. The arguments of
  \<^verbatim>\<open>cross_val_score\<close> are evaluated from left to right: the clone and its
  \<^verbatim>\<open>set_params\<close>, then \<^verbatim>\<open>self.X_\<close>, then \<^verbatim>\<open>self.y_\<close>.
\<close>

definition objective ::
  "('e, 'sp, 'cv) env \<Rightarrow> addr \<Rightarrow> config \<Rightarrow> ('e, 'sp, 'cv) world \<Rightarrow>
     (error + real) \<times> ('e, 'sp, 'cv) world" where
  "objective E self kwargs w =
     (case deref (adapters w) self of
        None \<Rightarrow> (Inl InvalidReference, w)
      | Some a \<Rightarrow>
          (case clone E (estimator a) w of
             (Inl e, w1) \<Rightarrow> (Inl e, w1)
           | (Inr c, w1) \<Rightarrow>
               (case set_params E c kwargs w1 of
                  (Inl e, w2) \<Rightarrow> (Inl e, w2)
                | (Inr c', w2) \<Rightarrow>
                    (case X_' a of
                       None \<Rightarrow> (Inl (AttributeError ''X_''), w2)
                     | Some X \<Rightarrow>
                         (case y_' a of
                            None \<Rightarrow> (Inl (AttributeError ''y_''), w2)
                          | Some y \<Rightarrow>
                              (case deref (estimators w2) c' of
                                 None \<Rightarrow> (Inl InvalidReference, w2)
                               | Some e \<Rightarrow>
                                   (let w3 = record_call (Cross_val_score_call c') w2 in
                                    case cross_val_score E e X y (scoring a) (cv a)
                                           (n_jobs a) (verbose a) of
                                      Inl err \<Rightarrow> (Inl err, w3)
                                    | Inr scores \<Rightarrow> (Inr (- mean scores), w3))))))))"

text \<open>Lines 67 and 68 of \<^verbatim>\<open>fit\<close>: \<^verbatim>\<open>self.X_ = X\<close>, \<^verbatim>\<open>self.Y_ = Y\<close>.\<close>

definition bind_dataset ::
  "addr \<Rightarrow> matrix \<Rightarrow> vector \<Rightarrow> ('e, 'sp, 'cv) world \<Rightarrow> ('e, 'sp, 'cv) world" where
  "bind_dataset self X Y w =
     update_adapter self (\<lambda>a. a\<lparr>Y_' := Some Y\<rparr>)
       (update_adapter self (\<lambda>a. a\<lparr>X_' := Some X\<rparr>) w)"

text \<open>Lines 71 to 76: \<^verbatim>\<open>self.best_params_ = fmin(self.__objective, self.space, ...)\<close>.\<close>

definition search ::
  "('e, 'sp, 'cv) env \<Rightarrow> addr \<Rightarrow> ('e, 'sp, 'cv) world \<Rightarrow> (error + unit) \<times> ('e, 'sp, 'cv) world" where
  "search E self w =
     (case deref (adapters w) self of
        None \<Rightarrow> (Inl InvalidReference, w)
      | Some a \<Rightarrow>
          (case fmin E (objective E self) (space a) (n_iter a) w of
             (Inl e, w1) \<Rightarrow> (Inl e, w1)
           | (Inr best, w1) \<Rightarrow>
               (Inr (), update_adapter self (\<lambda>a. a\<lparr>best_params_' := Some best\<rparr>) w1)))"

text \<open>
  Lines 79 to 81:
  \<^verbatim>\<open>self.best_estimator_ = self.estimator.set_params(**self.best_params_).fit(self.X_, self.Y_)\<close>.
\<close>

definition refit ::
  "('e, 'sp, 'cv) env \<Rightarrow> addr \<Rightarrow> ('e, 'sp, 'cv) world \<Rightarrow> (error + unit) \<times> ('e, 'sp, 'cv) world" where
  "refit E self w =
     (case deref (adapters w) self of
        None \<Rightarrow> (Inl InvalidReference, w)
      | Some a \<Rightarrow>
          (case best_params_' a of
             None \<Rightarrow> (Inl (AttributeError ''best_params_''), w)
           | Some best \<Rightarrow>
               (case set_params E (estimator a) best w of
                  (Inl e, w1) \<Rightarrow> (Inl e, w1)
                | (Inr m, w1) \<Rightarrow>
                    (case X_' a of
                       None \<Rightarrow> (Inl (AttributeError ''X_''), w1)
                     | Some X \<Rightarrow>
                         (case Y_' a of
                            None \<Rightarrow> (Inl (AttributeError ''Y_''), w1)
                          | Some Y \<Rightarrow>
                              (case estimator_fit E m X Y w1 of
                                 (Inl e, w2) \<Rightarrow> (Inl e, w2)
                               | (Inr m', w2) \<Rightarrow>
                                   (Inr (),
                                    update_adapter self
                                      (\<lambda>a. a\<lparr>best_estimator_' := Some m'\<rparr>) w2)))))))"

text \<open>
  Lines 83 to 86: \<^verbatim>\<open>del self.X_\<close>, \<^verbatim>\<open>del self.Y_\<close>; \<^verbatim>\<open>gc.collect()\<close> changes nothing a
  program can read.
\<close>

definition release ::
  "addr \<Rightarrow> ('e, 'sp, 'cv) world \<Rightarrow> (error + unit) \<times> ('e, 'sp, 'cv) world" where
  "release self w =
     (case deref (adapters w) self of
        None \<Rightarrow> (Inl InvalidReference, w)
      | Some a \<Rightarrow>
          (case X_' a of
             None \<Rightarrow> (Inl (AttributeError ''X_''), w)
           | Some _ \<Rightarrow>
               (let w1 = update_adapter self (\<lambda>a. a\<lparr>X_' := None\<rparr>) w in
                case Y_' a of
                  None \<Rightarrow> (Inl (AttributeError ''Y_''), w1)
                | Some _ \<Rightarrow> (Inr (), update_adapter self (\<lambda>a. a\<lparr>Y_' := None\<rparr>) w1))))"

text \<open>\<^verbatim>\<open>fit(self, X, Y)\<close>, lines 52 to 88.\<close>

definition fit ::
  "('e, 'sp, 'cv) env \<Rightarrow> addr \<Rightarrow> matrix \<Rightarrow> vector \<Rightarrow> ('e, 'sp, 'cv) world \<Rightarrow>
     (error + addr) \<times> ('e, 'sp, 'cv) world" where
  "fit E self X Y w =
     (case deref (adapters w) self of
        None \<Rightarrow> (Inl InvalidReference, w)
      | Some _ \<Rightarrow>
          (case check_X_y X Y of
             Inl e \<Rightarrow> (Inl e, w)
           | Inr (X1, Y1) \<Rightarrow>
               (case search E self (bind_dataset self X1 Y1 w) of
                  (Inl e, w1) \<Rightarrow> (Inl e, w1)
                | (Inr _, w1) \<Rightarrow>
                    (case refit E self w1 of
                       (Inl e, w2) \<Rightarrow> (Inl e, w2)
                     | (Inr _, w2) \<Rightarrow>
                         (case release self w2 of
                            (Inl e, w3) \<Rightarrow> (Inl e, w3)
                          | (Inr _, w3) \<Rightarrow> (Inr self, w3))))))"

text \<open>\<^verbatim>\<open>predict(self, X)\<close>, lines 90 to 106.\<close>

definition predict ::
  "('e, 'sp, 'cv) env \<Rightarrow> addr \<Rightarrow> matrix \<Rightarrow> ('e, 'sp, 'cv) world \<Rightarrow>
     (error + vector) \<times> ('e, 'sp, 'cv) world" where
  "predict E self X w =
     (case deref (adapters w) self of
        None \<Rightarrow> (Inl InvalidReference, w)
      | Some a \<Rightarrow>
          (case check_is_fitted a of
             Inl e \<Rightarrow> (Inl e, w)
           | Inr _ \<Rightarrow>
               (case check_array X of
                  Inl e \<Rightarrow> (Inl e, w)
                | Inr X1 \<Rightarrow>
                    (case best_estimator_' a of
                       None \<Rightarrow> (Inl (AttributeError ''best_estimator_''), w)
                     | Some m \<Rightarrow> estimator_predict E m X1 w))))"

section \<open>Diagnostics and the orchestration\<close>

text \<open>
  \<^verbatim>\<open>plot_feature_importance(clf, path)\<close>, lines 155 to 187. The style, the font and a
  new figure come first; \<^verbatim>\<open>clf.feature_importances_\<close> is read at line 171;
  \<^verbatim>\<open>f.savefig(path)\<close> at line 184 writes the file. Line 187, \<^verbatim>\<open>plt.clf\<close> without
  parentheses, calls nothing, so the figure stays open.
\<close>

definition plot_feature_importance ::
  "('e, 'sp, 'cv) env \<Rightarrow> addr \<Rightarrow> string \<Rightarrow> ('e, 'sp, 'cv) world \<Rightarrow>
     (error + unit) \<times> ('e, 'sp, 'cv) world" where
  "plot_feature_importance E clf path w =
     (let w1 = w\<lparr>sns_style := ''whitegrid'', rc_font_family := ''Times New Roman'',
                 figures := Suc (figures w)\<rparr> in
      case deref (estimators w1) clf of
        None \<Rightarrow> (Inl InvalidReference, w1)
      | Some e \<Rightarrow>
          (case sk_feature_importances E e of
             None \<Rightarrow> (Inl (AttributeError ''feature_importances_''), w1)
           | Some feature_importances \<Rightarrow>
               (let n_features = length feature_importances;
                    fig = \<lparr>bars = feature_importances, xlim = (0, real n_features),
                           ylim = (0, 2 / 100), xlabel = ''Features'',
                           ylabel = ''Feature importance''\<rparr>
                in (Inr (),
                    record_call (Savefig_call path)
                      (w1\<lparr>files := (files w1)(path \<mapsto> Image fig)\<rparr>)))))"

text \<open>\<^verbatim>\<open>dump(obj, path)\<close> of joblib: the object's state goes to the file.\<close>

definition dump ::
  "addr \<Rightarrow> string \<Rightarrow> ('e, 'sp, 'cv) world \<Rightarrow> (error + unit) \<times> ('e, 'sp, 'cv) world" where
  "dump obj path w =
     (case deref (estimators w) obj of
        None \<Rightarrow> (Inl InvalidReference, w)
      | Some e \<Rightarrow>
          (Inr (), record_call (Dump_call obj path) (w\<lparr>files := (files w)(path \<mapsto> Pickle e)\<rparr>)))"

text \<open>\<^verbatim>\<open>np.array(pd.read_pickle(path))\<close>: the table a file holds.\<close>

definition read_pickle :: "string \<Rightarrow> ('e, 'sp, 'cv) world \<Rightarrow> error + matrix" where
  "read_pickle path w =
     (case files w path of
        None \<Rightarrow> Inl (IOError path)
      | Some (Table m) \<Rightarrow> Inr m
      | Some _ \<Rightarrow> Inl (ValueError path))"

text \<open>The dictionaries of \<^verbatim>\<open>main\<close>, lines 205 to 236.\<close>

definition svm_args :: config where
  "svm_args =
     [(''epsilon'', PFloat (1 / 10)), (''kernel'', PStr ''rbf''), (''degree'', PInt 3),
      (''coef0'', PInt 0), (''shrinking'', PBool True), (''tol'', PFloat (1 / 1000)),
      (''verbose'', PBool False), (''max_iter'', PInt (- 1))]"

definition rf_args :: "int \<Rightarrow> config" where
  "rf_args random_state = [(''random_state'', PInt random_state), (''n_jobs'', PInt (- 1))]"

definition xgb_args :: "int \<Rightarrow> config" where
  "xgb_args random_state = [(''seed'', PInt random_state)]"

definition decades :: "real list" where
  "decades = [1 / 10000, 1 / 1000, 1 / 100, 1 / 10, 1, 10, 100, 1000, 10000]"

definition fractions :: "real list" where
  "fractions = [6 / 10, 7 / 10, 8 / 10, 9 / 10, 1]"

definition param_distributions :: "(string \<times> (string \<times> dist) list) list" where
  "param_distributions =
     [(''svm'', [(''C'', Choice decades), (''gamma'', Choice decades)]),
      (''rf'', [(''max_depth'', Randint 1 10), (''max_features'', Randint 5 33),
                (''n_estimators'', Randint 10 100)]),
      (''xgb'', [(''colsample_bylevel'', Choice fractions),
                 (''colsample_bytree'', Choice fractions),
                 (''gamma'', Uniform 0 1), (''learning_rate'', Uniform 0 1),
                 (''max_delta_step'', Randint 1 5), (''max_depth'', Randint 1 10),
                 (''min_child_weight'', Randint 1 10), (''n_estimators'', Randint 100 500),
                 (''subsample'', Choice fractions)])]"

definition settings :: "nat \<Rightarrow> int \<Rightarrow> search_settings" where
  "settings n_splits random_state =
     \<lparr>rs_scoring = ''r2'', rs_n_splits = n_splits, rs_test_size = 1 / real n_splits,
      rs_cv_random_state = random_state, rs_random_state = random_state, rs_n_iter = 81,
      rs_verbose = 1, rs_n_jobs = - 1\<rparr>"

text \<open>
  \<^verbatim>\<open>RandomizedSearchCV(estimator = ..., ...).fit(X_train, Y_train)\<close>, lines 241 to 255:
  the search leaves the estimator it is given alone and builds its best estimator as a
  new object.
\<close>

definition RandomizedSearchCV_fit ::
  "('e, 'sp, 'cv) env \<Rightarrow> addr \<Rightarrow> (string \<times> dist) list \<Rightarrow> search_settings \<Rightarrow> matrix \<Rightarrow> vector \<Rightarrow>
     ('e, 'sp, 'cv) world \<Rightarrow> (error + addr \<times> config) \<times> ('e, 'sp, 'cv) world" where
  "RandomizedSearchCV_fit E est dists st X Y w =
     (case deref (estimators w) est of
        None \<Rightarrow> (Inl InvalidReference, w)
      | Some e \<Rightarrow>
          (let w1 = record_call (RandomizedSearchCV_call est) w in
           case randomized_search E e dists st X Y of
             Inl err \<Rightarrow> (Inl err, w1)
           | Inr (best, best_params) \<Rightarrow>
               (case new_estimator best w1 of
                  (b, w2) \<Rightarrow> (Inr (b, best_params), w2))))"

text \<open>The body of the loop of \<^verbatim>\<open>main\<close>, lines 240 to 263, for one \<^verbatim>\<open>clf_name\<close>.\<close>

definition main_body ::
  "('e, 'sp, 'cv) env \<Rightarrow> (string \<times> addr) list \<Rightarrow> nat \<Rightarrow> int \<Rightarrow> matrix \<Rightarrow> vector \<Rightarrow> string \<Rightarrow>
     ('e, 'sp, 'cv) world \<Rightarrow> (error + unit) \<times> ('e, 'sp, 'cv) world" where
  "main_body E estimator_dict n_splits random_state X_train Y_train clf_name w =
     (case map_of estimator_dict clf_name of
        None \<Rightarrow> (Inl (KeyError clf_name), w)
      | Some est \<Rightarrow>
          (case map_of param_distributions clf_name of
             None \<Rightarrow> (Inl (KeyError clf_name), w)
           | Some dists \<Rightarrow>
               (case RandomizedSearchCV_fit E est dists (settings n_splits random_state)
                       X_train Y_train w of
                  (Inl e, w1) \<Rightarrow> (Inl e, w1)
                | (Inr (best_estimator, best_params), w1) \<Rightarrow>
                    (case (if clf_name = ''rf''
                           then plot_feature_importance E best_estimator
                                  ''./documents/pictures/feature_importances.png'' w1
                           else (Inr (), w1)) of
                       (Inl e, w2) \<Rightarrow> (Inl e, w2)
                     | (Inr _, w2) \<Rightarrow>
                         dump best_estimator (''./resources/estimators/'' @ clf_name @ ''.pkl'')
                           w2))))"

text \<open>The loop \<^verbatim>\<open>for clf_name in clf_names\<close>: the first exception ends it.\<close>

fun main_loop ::
  "('e, 'sp, 'cv) env \<Rightarrow> (string \<times> addr) list \<Rightarrow> nat \<Rightarrow> int \<Rightarrow> matrix \<Rightarrow> vector \<Rightarrow> string list \<Rightarrow>
     ('e, 'sp, 'cv) world \<Rightarrow> (error + unit) \<times> ('e, 'sp, 'cv) world" where
  "main_loop E estimator_dict n_splits random_state X_train Y_train [] w = (Inr (), w)"
| "main_loop E estimator_dict n_splits random_state X_train Y_train (clf_name # rest) w =
     (case main_body E estimator_dict n_splits random_state X_train Y_train clf_name w of
        (Inl e, w1) \<Rightarrow> (Inl e, w1)
      | (Inr _, w1) \<Rightarrow> main_loop E estimator_dict n_splits random_state X_train Y_train rest w1)"

text \<open>
  \<^verbatim>\<open>main()\<close>, lines 190 to 263. The target table is flattened by \<^verbatim>\<open>reshape(-1,)\<close>;
  \<^verbatim>\<open>clf_names\<close> is the list written at line 203.
\<close>

definition clf_names :: "string list" where
  "clf_names = [''svm'']"

definition main ::
  "('e, 'sp, 'cv) env \<Rightarrow> ('e, 'sp, 'cv) world \<Rightarrow> (error + unit) \<times> ('e, 'sp, 'cv) world" where
  "main E w =
     (case read_pickle ''./resources/train/data.pkl'' w of
        Inl e \<Rightarrow> (Inl e, w)
      | Inr X_train \<Rightarrow>
          (case read_pickle ''./resources/train/target.pkl'' w of
             Inl e \<Rightarrow> (Inl e, w)
           | Inr T \<Rightarrow>
               (let Y_train = concat T;
                    n_splits = 5;
                    random_state = 1
                in case new_estimator (sk_new E ''SVR'' svm_args) w of
                     (svm, w1) \<Rightarrow>
                (case new_estimator
                        (sk_new E ''RandomForestRegressor'' (rf_args random_state)) w1 of
                     (rf, w2) \<Rightarrow>
                (case new_estimator (sk_new E ''XGBRegressor'' (xgb_args random_state)) w2 of
                     (xgb, w3) \<Rightarrow>
                   main_loop E [(''svm'', svm), (''rf'', rf), (''xgb'', xgb)] n_splits
                     random_state X_train Y_train clf_names w3)))))"

section \<open>A concrete environment\<close>

text \<open>
  An estimator to run the definitions on: it predicts the mean of the targets it was
  fitted on, for every row. Its \<^verbatim>\<open>set_params\<close> accepts the names it already has, as
  scikit-learn's does; its clone is the same estimator, unfitted; only an object whose
  class is not \<^verbatim>\<open>SVR\<close> has feature importances, once it is fitted.

  The cross-validation is by \<open>k\<close> folds, three when \<^verbatim>\<open>cv\<close> is \<^verbatim>\<open>None\<close>: it refuses
  a dataset whose features and targets differ in number, fewer than two folds, and
  fewer samples than folds, as scikit-learn does; the score of a fold is the better the
  nearer the parameter \<open>C\<close> is to 2. The randomized search refuses a dataset whose
  features and targets differ in number or that has fewer than two samples (its
  \<^verbatim>\<open>ShuffleSplit\<close> needs one sample to train on and one to test on), and a range of
  \<^verbatim>\<open>max_features\<close> that reaches beyond the number of features, which no forest accepts.
  The importances of a fitted forest are one equal share for each feature.
\<close>

record regressor =
  cls :: string
  params :: config
  fitted_mean :: "real option"
  n_features :: nat

definition width :: "matrix \<Rightarrow> nat" where
  "width X = (case X of [] \<Rightarrow> 0 | r # _ \<Rightarrow> length r)"

definition mean_env :: "(regressor, unit, nat) env" where
  "mean_env =
     \<lparr>sk_new = (\<lambda>c kw. \<lparr>cls = c, params = kw, fitted_mean = None, n_features = 0\<rparr>),
      sk_clone = (\<lambda>e. e\<lparr>fitted_mean := None, n_features := 0\<rparr>),
      sk_set_params = (\<lambda>e kw.
         if list_all (\<lambda>kv. fst kv \<in> set (map fst (params e))) kw
         then Inr (e\<lparr>params :=
                map (\<lambda>kv. case map_of kw (fst kv) of None \<Rightarrow> kv | Some v \<Rightarrow> (fst kv, v))
                  (params e)\<rparr>)
         else Inl (ValueError ''Invalid parameter'')),
      sk_fit = (\<lambda>e X Y. Inr (e\<lparr>fitted_mean := Some (mean Y), n_features := width X\<rparr>)),
      sk_predict = (\<lambda>e X.
         case fitted_mean e of
           None \<Rightarrow> Inl NotFittedError
         | Some c \<Rightarrow> Inr (map (\<lambda>_. c) X)),
      sk_feature_importances = (\<lambda>e.
         if cls e = ''SVR'' then None
         else map_option (\<lambda>_. replicate (n_features e) (1 / real (n_features e)))
                (fitted_mean e)),
      cross_val_score = (\<lambda>e X y sc c nj vb.
         let folds = (case c of None \<Rightarrow> 3 | Some k \<Rightarrow> k) in
         if length X = length y
         then if 2 \<le> folds
              then if folds \<le> length X
                   then Inr (replicate folds
                          (case map_of (params e) ''C'' of
                             Some (PFloat v) \<Rightarrow> - \<bar>v - 2\<bar>
                           | _ \<Rightarrow> - 1))
                   else Inl (ValueError
                          ''Cannot have number of splits greater than the number of samples'')
              else Inl (ValueError
                     ''k-fold cross-validation requires at least one train/test split'')
         else Inl (ValueError
                ''Found input variables with inconsistent numbers of samples'')),
      tpe_suggest = (\<lambda>sp trials. [(''C'', PFloat (1 + real (length trials)))]),
      randomized_search = (\<lambda>e dists st X Y.
         if length X = length Y
         then if 2 \<le> length X
              then if (case map_of dists ''max_features'' of
                         Some (Randint lo hi) \<Rightarrow> hi \<le> int (width X) + 1
                       | _ \<Rightarrow> True)
                   then Inr (e\<lparr>fitted_mean := Some (mean Y), n_features := width X\<rparr>, [])
                   else Inl (ValueError ''max_features must be in (0, n_features]'')
              else Inl (ValueError ''the resulting train set will be empty'')
         else Inl (ValueError
                ''Found input variables with inconsistent numbers of samples''))\<rparr>"

definition svr :: regressor where
  "svr = \<lparr>cls = ''SVR'', params = [(''C'', PFloat 10)], fitted_mean = None, n_features = 0\<rparr>"

definition forest :: regressor where
  "forest = \<lparr>cls = ''RandomForestRegressor'', params = [(''max_depth'', PInt 3)],
             fitted_mean = None, n_features = 0\<rparr>"

text \<open>A state with the two estimators and no adapter, and a dataset of two rows.\<close>

definition world0 :: "(regressor, unit, nat) world" where
  "world0 =
     \<lparr>estimators = [svr, forest], adapters = [], files = (\<lambda>_. None), sns_style = ''darkgrid'',
      rc_font_family = ''sans-serif'', figures = 0, trace = []\<rparr>"

definition X2 :: matrix where
  "X2 = [[1, 2], [3, 4]]"

definition Y2 :: vector where
  "Y2 = [10, 20]"

text \<open>
  Ten feature rows, of two features and of forty features, ten targets and nine targets.
\<close>

definition X10 :: matrix where
  "X10 = replicate 10 [1, 2]"

definition X40 :: matrix where
  "X40 = replicate 10 (replicate 40 1)"

definition Y10 :: vector where
  "Y10 = [1, 2, 3, 4, 5, 6, 7, 8, 9, 10]"

definition Y9 :: vector where
  "Y9 = replicate 9 5"

text \<open>
  \<^verbatim>\<open>HyperoptSearchCV(svr, space, n_iter=3)\<close> in that state, as \<^verbatim>\<open>__init__\<close> leaves it; and
  the same adapter after \<^verbatim>\<open>adapter.y_ = Y10\<close>, an assignment made from outside the class.
\<close>

definition world1 :: "(regressor, unit, nat) world" where
  "world1 = snd (HyperoptSearchCV 0 () 3 None None 1 0 world0)"

definition world1y :: "(regressor, unit, nat) world" where
  "world1y = update_adapter 0 (\<lambda>a. a\<lparr>y_' := Some Y10\<rparr>) world1"

definition adapter1 :: "(unit, nat) adapter" where
  "adapter1 =
     \<lparr>estimator = 0, space = (), n_iter = 3, scoring = None, cv = None, n_jobs = 1,
      verbose = 0, X_' = None, Y_' = None, y_' = None, best_params_' = None,
      best_estimator_' = None\<rparr>"

text \<open>
  The state after \<^verbatim>\<open>fit(X10, Y10)\<close> on the adapter that was given a \<^verbatim>\<open>y_\<close>, the
  adapter as it is then, and the states after one and two calls of \<^verbatim>\<open>predict(X10)\<close>.
  The three trials propose \<open>C = 1, 2, 3\<close>; the second has the least loss.
\<close>

definition world2 :: "(regressor, unit, nat) world" where
  "world2 = snd (fit mean_env 0 X10 Y10 world1y)"

definition adapter2 :: "(unit, nat) adapter" where
  "adapter2 =
     adapter1\<lparr>y_' := Some Y10, best_params_' := Some [(''C'', PFloat 2)],
              best_estimator_' := Some 0\<rparr>"

definition world3 :: "(regressor, unit, nat) world" where
  "world3 = snd (predict mean_env 0 X10 world2)"

definition world4 :: "(regressor, unit, nat) world" where
  "world4 = snd (predict mean_env 0 X10 world3)"

text \<open>
  The distributions of the families \<^verbatim>\<open>svm\<close> and \<^verbatim>\<open>rf\<close>, the two estimators once
  fitted on \<open>X40\<close> and \<open>Y10\<close>, the chart of the forest's importances, and a state that
  also holds the two training files.
\<close>

definition svm_dists :: "(string \<times> dist) list" where
  "svm_dists = [(''C'', Choice decades), (''gamma'', Choice decades)]"

definition rf_dists :: "(string \<times> dist) list" where
  "rf_dists = [(''max_depth'', Randint 1 10), (''max_features'', Randint 5 33),
               (''n_estimators'', Randint 10 100)]"

definition svr_fitted :: regressor where
  "svr_fitted = svr\<lparr>fitted_mean := Some (11 / 2), n_features := 40\<rparr>"

definition forest_fitted :: regressor where
  "forest_fitted = forest\<lparr>fitted_mean := Some (11 / 2), n_features := 40\<rparr>"

definition forest_chart :: chart where
  "forest_chart =
     \<lparr>bars = replicate 40 (1 / 40), xlim = (0, 40), ylim = (0, 2 / 100),
      xlabel = ''Features'', ylabel = ''Feature importance''\<rparr>"

definition world0f :: "(regressor, unit, nat) world" where
  "world0f =
     world0\<lparr>files := [''./resources/train/data.pkl'' \<mapsto> Table X40,
                       ''./resources/train/target.pkl'' \<mapsto> Table (map (\<lambda>y. [y]) Y10)]\<rparr>"

section \<open>Stores and frames\<close>

lemma adapters_record_call [simp]: "adapters (record_call ev w) = adapters w"
  by (simp add: record_call_def)

lemma estimators_record_call [simp]: "estimators (record_call ev w) = estimators w"
  by (simp add: record_call_def)

lemma files_record_call [simp]: "files (record_call ev w) = files w"
  by (simp add: record_call_def)

lemma trace_record_call [simp]: "trace (record_call ev w) = trace w @ [ev]"
  by (simp add: record_call_def)

lemma deref_update_adapter:
  "deref (adapters w) self = Some a \<Longrightarrow> deref (adapters (update_adapter self f w)) self = Some (f a)"
  by (auto simp: update_adapter_def deref_def split: if_splits)

lemma estimators_update_adapter [simp]: "estimators (update_adapter self f w) = estimators w"
  by (simp add: update_adapter_def split: option.splits)

lemma trace_update_adapter [simp]: "trace (update_adapter self f w) = trace w"
  by (simp add: update_adapter_def split: option.splits)

lemma files_update_adapter [simp]: "files (update_adapter self f w) = files w"
  by (simp add: update_adapter_def split: option.splits)

lemma deref_bind_dataset:
  "deref (adapters w) self = Some a \<Longrightarrow>
     deref (adapters (bind_dataset self X Y w)) self = Some (a\<lparr>X_' := Some X, Y_' := Some Y\<rparr>)"
  by (simp add: bind_dataset_def deref_update_adapter)

text \<open>The objective leaves every adapter as it is.\<close>

lemma clone_adapters: "clone E est w = (r, w') \<Longrightarrow> adapters w' = adapters w"
  by (auto simp: clone_def new_estimator_def split: option.splits)

lemma set_params_adapters: "set_params E est kw w = (r, w') \<Longrightarrow> adapters w' = adapters w"
  by (auto simp: set_params_def split: option.splits sum.splits)

lemma objective_adapters: "objective E self kw w = (r, w') \<Longrightarrow> adapters w' = adapters w"
  by (auto simp: objective_def Let_def split: option.splits sum.splits prod.splits
           dest!: clone_adapters set_params_adapters)

lemma objective_without_y:
  assumes "deref (adapters w) self = Some a" and "y_' a = None"
  shows "\<exists>e w'. objective E self kw w = (Inl e, w')"
  using assms
  by (auto simp: objective_def split: option.splits sum.splits prod.splits)


text \<open>The search loop stops at the first exception of the objective.\<close>

lemma fmin_loop_first_fails:
  "fn (suggest []) w = (Inl e, w') \<Longrightarrow> 0 < n \<Longrightarrow> fmin_loop fn suggest n [] w = (Inl e, w')"
  by (cases n) simp_all

lemma objective_first_error:
  assumes "deref (adapters w) self = Some a" and "y_' a = None"
  shows "objective E self kw w =
           (case deref (estimators w) (estimator a) of
              None \<Rightarrow> (Inl InvalidReference, w)
            | Some est \<Rightarrow>
                (case sk_set_params E (sk_clone E est) kw of
                   Inl err \<Rightarrow> (Inl err, w\<lparr>estimators := estimators w @ [sk_clone E est]\<rparr>)
                 | Inr est' \<Rightarrow>
                     (case X_' a of
                        None \<Rightarrow> (Inl (AttributeError ''X_''), w\<lparr>estimators := estimators w @ [est']\<rparr>)
                      | Some _ \<Rightarrow> (Inl (AttributeError ''y_''), w\<lparr>estimators := estimators w @ [est']\<rparr>))))"
  using assms
  by (auto simp: objective_def clone_def set_params_def new_estimator_def deref_def
           split: option.splits sum.splits prod.splits if_splits)


lemma search_without_y:
  assumes a: "deref (adapters w) self = Some a" and y: "y_' a = None" and n: "1 \<le> n_iter a"
  shows "\<exists>e w'. search E self w = (Inl e, w') \<and> adapters w' = adapters w \<and>
           trace w' = trace w @ [Fmin_call] \<and> files w' = files w \<and>
           (\<forall>est est' X. deref (estimators w) (estimator a) = Some est \<longrightarrow>
              sk_set_params E (sk_clone E est) (tpe_suggest E (space a) []) = Inr est' \<longrightarrow>
              X_' a = Some X \<longrightarrow> e = AttributeError ''y_'')"
proof -
  let ?w0 = "record_call Fmin_call w"
  let ?kw = "tpe_suggest E (space a) []"
  have a0: "deref (adapters ?w0) self = Some a"
    using a by simp
  obtain e w' where obj: "objective E self ?kw ?w0 = (Inl e, w')"
    using objective_without_y [OF a0 y] by blast
  have frame: "adapters w' = adapters w" "trace w' = trace w @ [Fmin_call]" "files w' = files w"
    using obj unfolding objective_first_error [OF a0 y]
    by (auto split: option.splits sum.splits)
  have cause: "e = AttributeError ''y_''"
    if "deref (estimators w) (estimator a) = Some est"
      and "sk_set_params E (sk_clone E est) ?kw = Inr est'" and "X_' a = Some X"
    for est est' X
    using obj that unfolding objective_first_error [OF a0 y] by simp
  have "0 < nat (n_iter a)"
    using n by simp
  then have "fmin_loop (objective E self) (tpe_suggest E (space a)) (nat (n_iter a)) [] ?w0
               = (Inl e, w')"
    using obj by (rule fmin_loop_first_fails [rotated])
  then have "search E self w = (Inl e, w')"
    using a by (simp add: search_def fmin_def)
  with frame cause show ?thesis
    by blast
qed

lemma fit_without_y:
  assumes a: "deref (adapters w) self = Some a" and y: "y_' a = None" and n: "1 \<le> n_iter a"
    and ok: "check_X_y X Y = Inr (X1, Y1)"
  shows "\<exists>e w'. fit E self X Y w = (Inl e, w') \<and>
           deref (adapters w') self = Some (a\<lparr>X_' := Some X1, Y_' := Some Y1\<rparr>) \<and>
           trace w' = trace w @ [Fmin_call] \<and> files w' = files w \<and>
           (\<forall>est est'. deref (estimators w) (estimator a) = Some est \<longrightarrow>
              sk_set_params E (sk_clone E est) (tpe_suggest E (space a) []) = Inr est' \<longrightarrow>
              e = AttributeError ''y_'')"
proof -
  let ?b = "a\<lparr>X_' := Some X1, Y_' := Some Y1\<rparr>"
  let ?w1 = "bind_dataset self X1 Y1 w"
  have b: "deref (adapters ?w1) self = Some ?b"
    using a by (rule deref_bind_dataset)
  have frame1: "estimators ?w1 = estimators w" "trace ?w1 = trace w" "files ?w1 = files w"
    by (simp_all add: bind_dataset_def)
  from search_without_y [OF b, of E] y n
  obtain e w' where s: "search E self ?w1 = (Inl e, w')"
    and fr: "adapters w' = adapters ?w1" "trace w' = trace ?w1 @ [Fmin_call]" "files w' = files ?w1"
    and cause: "\<And>est est' X. deref (estimators ?w1) (estimator ?b) = Some est \<Longrightarrow>
              sk_set_params E (sk_clone E est) (tpe_suggest E (space ?b) []) = Inr est' \<Longrightarrow>
              X_' ?b = Some X \<Longrightarrow> e = AttributeError ''y_''"
    by auto
  have "fit E self X Y w = (Inl e, w')"
    using a ok s by (simp add: fit_def)
  moreover have "deref (adapters w') self = Some ?b"
    using b fr by simp
  moreover have "e = AttributeError ''y_''"
    if "deref (estimators w) (estimator a) = Some est"
      and "sk_set_params E (sk_clone E est) (tpe_suggest E (space a) []) = Inr est'" for est est'
    using cause [of est est' X1] that frame1 by simp
  ultimately show ?thesis
    using fr frame1 by auto
qed

lemma world1_adapter: "deref (adapters world1) 0 = Some adapter1"
  by (simp add: world1_def HyperoptSearchCV_def world0_def deref_def adapter1_def)

lemma check_X2_Y2: "check_X_y X2 Y2 = Inr (X2, Y2)"
  by (simp add: check_X_y_def check_array_def X2_def Y2_def)

text \<open>\<^verbatim>\<open>predict\<close> changes neither store, and reads nothing but the two stores.\<close>

lemma predict_frame:
  assumes "predict E self X w = (r, w')"
  shows "adapters w' = adapters w" and "estimators w' = estimators w" and "files w' = files w"
  using assms
  by (auto simp: predict_def estimator_predict_def split: option.splits sum.splits)

lemma predict_reads:
  assumes "adapters w' = adapters w" and "estimators w' = estimators w"
  shows "fst (predict E self X w') = fst (predict E self X w)"
  using assms
  by (auto simp: predict_def estimator_predict_def split: option.splits sum.splits)

text \<open>The path of \<^verbatim>\<open>fit\<close> that returns.\<close>

lemma fmin_loop_adapters:
  assumes "\<And>kw w r w'. fn kw w = (r, w') \<Longrightarrow> adapters w' = adapters w"
    and "fmin_loop fn suggest n trials w = (r, w')"
  shows "adapters w' = adapters w"
  using assms(2)
proof (induction n arbitrary: trials w)
  case 0
  then show ?case by simp
next
  case (Suc n)
  obtain r1 w1 where step: "fn (suggest trials) w = (r1, w1)"
    by (cases "fn (suggest trials) w")
  then have a1: "adapters w1 = adapters w"
    by (rule assms(1))
  show ?case
  proof (cases r1)
    case (Inl e)
    with Suc.prems step a1 show ?thesis by simp
  next
    case (Inr loss)
    with Suc.prems step have "fmin_loop fn suggest n (trials @ [(suggest trials, loss)]) w1 = (r, w')"
      by simp
    then have "adapters w' = adapters w1"
      by (rule Suc.IH)
    with a1 show ?thesis by simp
  qed
qed

lemma fmin_adapters:
  assumes "fmin E (objective E self) sp n w = (r, w')"
  shows "adapters w' = adapters w"
proof -
  obtain r0 w0 where l: "fmin_loop (objective E self) (tpe_suggest E sp) (nat n) []
      (record_call Fmin_call w) = (r0, w0)"
    by (cases "fmin_loop (objective E self) (tpe_suggest E sp) (nat n) [] (record_call Fmin_call w)")
  have "adapters w0 = adapters (record_call Fmin_call w)"
    using objective_adapters l by (rule fmin_loop_adapters)
  moreover have "w' = w0"
    using assms l by (auto simp: fmin_def split: sum.splits option.splits)
  ultimately show ?thesis by simp
qed

lemma search_success:
  assumes "search E self w = (Inr u, w')"
  shows "\<exists>a best. deref (adapters w) self = Some a \<and>
           deref (adapters w') self = Some (a\<lparr>best_params_' := Some best\<rparr>)"
proof -
  from assms obtain a where a: "deref (adapters w) self = Some a"
    by (auto simp: search_def split: option.splits)
  from assms a obtain best w1 where f: "fmin E (objective E self) (space a) (n_iter a) w = (Inr best, w1)"
    and w': "w' = update_adapter self (\<lambda>a. a\<lparr>best_params_' := Some best\<rparr>) w1"
    by (auto simp: search_def split: prod.splits sum.splits)
  have "adapters w1 = adapters w"
    using f by (rule fmin_adapters)
  with a have "deref (adapters w1) self = Some a"
    by simp
  then have "deref (adapters w') self = Some (a\<lparr>best_params_' := Some best\<rparr>)"
    unfolding w' by (rule deref_update_adapter)
  with a show ?thesis by blast
qed

lemma set_params_frame:
  "set_params E est kw w = (r, w') \<Longrightarrow> adapters w' = adapters w \<and> trace w' = trace w \<and> files w' = files w"
  by (auto simp: set_params_def split: option.splits sum.splits)

lemma estimator_fit_frame:
  "estimator_fit E est X Y w = (r, w') \<Longrightarrow> adapters w' = adapters w \<and> files w' = files w"
  by (auto simp: estimator_fit_def Let_def split: option.splits sum.splits)

lemma set_params_returns_self: "set_params E est kw w = (Inr m, w') \<Longrightarrow> m = est"
  by (auto simp: set_params_def split: option.splits sum.splits)

lemma estimator_fit_returns_self: "estimator_fit E est X Y w = (Inr m, w') \<Longrightarrow> m = est"
  by (auto simp: estimator_fit_def Let_def split: option.splits sum.splits)

text \<open>The refit works on the object the adapter holds as its estimator.\<close>

lemma refit_success:
  assumes "refit E self w = (Inr u, w')"
  shows "\<exists>a. deref (adapters w) self = Some a \<and>
           deref (adapters w') self = Some (a\<lparr>best_estimator_' := Some (estimator a)\<rparr>) \<and>
           length (estimators w') = length (estimators w)"
proof -
  from assms obtain a best X Y where a: "deref (adapters w) self = Some a"
    and "best_params_' a = Some best" "X_' a = Some X" "Y_' a = Some Y"
    by (auto simp: refit_def split: option.splits prod.splits sum.splits)
  with assms obtain m w1 m' w2 where sp: "set_params E (estimator a) best w = (Inr m, w1)"
    and ft: "estimator_fit E m X Y w1 = (Inr m', w2)"
    and w': "w' = update_adapter self (\<lambda>a. a\<lparr>best_estimator_' := Some m'\<rparr>) w2"
    by (auto simp: refit_def split: option.splits prod.splits sum.splits)
  have m: "m = estimator a" "m' = m"
    using sp ft by (auto dest: set_params_returns_self estimator_fit_returns_self)
  have "adapters w1 = adapters w" and "adapters w2 = adapters w1"
    using set_params_frame [OF sp] estimator_fit_frame [OF ft] by simp_all
  then have "adapters w2 = adapters w"
    by simp
  with a have "deref (adapters w2) self = Some a"
    by simp
  then have "deref (adapters w') self = Some (a\<lparr>best_estimator_' := Some m'\<rparr>)"
    unfolding w' by (rule deref_update_adapter)
  moreover have "length (estimators w') = length (estimators w)"
    using sp ft unfolding w'
    by (auto simp: set_params_def estimator_fit_def Let_def split: option.splits sum.splits)
  ultimately show ?thesis
    using a m by auto
qed

lemma release_success:
  assumes "release self w = (Inr u, w')"
  shows "\<exists>a. deref (adapters w) self = Some a \<and>
           deref (adapters w') self = Some (a\<lparr>X_' := None, Y_' := None\<rparr>)"
proof -
  from assms obtain a where a: "deref (adapters w) self = Some a"
    by (auto simp: release_def split: option.splits)
  let ?w1 = "update_adapter self (\<lambda>a. a\<lparr>X_' := None\<rparr>) w"
  have w': "w' = update_adapter self (\<lambda>a. a\<lparr>Y_' := None\<rparr>) ?w1"
    using assms a by (auto simp: release_def Let_def split: option.splits)
  have "deref (adapters ?w1) self = Some (a\<lparr>X_' := None\<rparr>)"
    using a by (rule deref_update_adapter)
  then have "deref (adapters w') self = Some (a\<lparr>X_' := None, Y_' := None\<rparr>)"
    unfolding w' by (simp add: deref_update_adapter)
  with a show ?thesis by blast
qed

lemma fit_success:
  assumes "fit E self X Y w = (Inr r, w')"
  shows "r = self \<and>
         (\<exists>a best. deref (adapters w) self = Some a \<and>
            deref (adapters w') self =
              Some (a\<lparr>X_' := None, Y_' := None, best_params_' := Some best,
                      best_estimator_' := Some (estimator a)\<rparr>))"
proof -
  from assms obtain a where a: "deref (adapters w) self = Some a"
    by (auto simp: fit_def split: option.splits)
  from assms a obtain X1 Y1 where ok: "check_X_y X Y = Inr (X1, Y1)"
    by (auto simp: fit_def split: sum.splits)
  let ?w0 = "bind_dataset self X1 Y1 w"
  from assms a ok obtain u1 w1 u2 w2 u3 where s: "search E self ?w0 = (Inr u1, w1)"
    and r: "refit E self w1 = (Inr u2, w2)" and d: "release self w2 = (Inr u3, w')"
    and self: "r = self"
    by (auto simp: fit_def split: prod.splits sum.splits)
  have b: "deref (adapters ?w0) self = Some (a\<lparr>X_' := Some X1, Y_' := Some Y1\<rparr>)"
    using a by (rule deref_bind_dataset)
  from search_success [OF s] b obtain best where
    a1: "deref (adapters w1) self = Some (a\<lparr>X_' := Some X1, Y_' := Some Y1, best_params_' := Some best\<rparr>)"
    by auto
  from refit_success [OF r] a1 have
    a2: "deref (adapters w2) self = Some (a\<lparr>X_' := Some X1, Y_' := Some Y1,
           best_params_' := Some best, best_estimator_' := Some (estimator a)\<rparr>)"
    by auto
  from release_success [OF d] a2 have
    "deref (adapters w') self = Some (a\<lparr>X_' := None, Y_' := None,
           best_params_' := Some best, best_estimator_' := Some (estimator a)\<rparr>)"
    by auto
  with a self show ?thesis by blast
qed

section \<open>The concrete environment, evaluated\<close>

lemmas model_defs =
  fit_def search_def refit_def release_def bind_dataset_def fmin_def best_trial_def
  objective_def clone_def set_params_def estimator_fit_def estimator_predict_def
  predict_def check_is_fitted_def check_X_y_def check_array_def
  update_adapter_def new_estimator_def record_call_def deref_def mean_def

lemma X10_rows:
  "X10 = [[1, 2], [1, 2], [1, 2], [1, 2], [1, 2], [1, 2], [1, 2], [1, 2], [1, 2], [1, 2]]"
  by (simp add: X10_def numeral_eq_Suc)

lemma check_X10_Y10: "check_X_y X10 Y10 = Inr (X10, Y10)"
  by (simp add: check_X_y_def check_array_def X10_rows Y10_def)

lemmas example_defs =
  mean_env_def svr_def forest_def world0_def world1_def world1y_def X2_def Y2_def
  X10_rows Y10_def HyperoptSearchCV_def adapter1_def

lemma fit_world1y: "fit mean_env 0 X10 Y10 world1y = (Inr 0, world2)"
proof -
  have "fst (fit mean_env 0 X10 Y10 world1y) = Inr 0"
    by (simp add: model_defs example_defs Let_def numeral_3_eq_3)
  then show ?thesis
    by (simp add: world2_def prod_eq_iff)
qed

lemma adapters_world2: "adapters world2 = [adapter2]"
  unfolding world2_def adapter2_def
  by (simp add: model_defs example_defs Let_def numeral_3_eq_3)

lemma estimators_world2:
  "estimators world2 ! 0 =
     \<lparr>cls = ''SVR'', params = [(''C'', PFloat 2)], fitted_mean = Some (11 / 2),
      n_features = 2\<rparr>"
  unfolding world2_def
  by (simp add: model_defs example_defs Let_def numeral_3_eq_3 width_def)

lemma length_estimators_world2: "length (estimators world2) = 5"
  unfolding world2_def
  by (simp add: model_defs example_defs Let_def numeral_3_eq_3)

lemma predict_world2:
  "predict mean_env 0 X10 world2 = (Inr (replicate 10 (11 / 2)), world3)"
proof -
  have "check_array X10 = Inr X10"
    by (simp add: check_array_def X10_rows)
  then have "fst (predict mean_env 0 X10 world2) = Inr (map (\<lambda>_. 11 / 2) X10)"
    using estimators_world2 length_estimators_world2
    by (simp add: predict_def adapters_world2 deref_def adapter2_def adapter1_def
        check_is_fitted_def estimator_predict_def mean_env_def)
  then show ?thesis
    by (simp add: world3_def prod_eq_iff X10_def)
qed

lemma predict_world3:
  "predict mean_env 0 X10 world3 = (Inr (replicate 10 (11 / 2)), world4)"
proof -
  have "adapters world3 = adapters world2" "estimators world3 = estimators world2"
    using predict_world2 by (auto dest: predict_frame)
  then have "fst (predict mean_env 0 X10 world3) = fst (predict mean_env 0 X10 world2)"
    by (rule predict_reads)
  then show ?thesis
    using predict_world2 by (simp add: world4_def prod_eq_iff)
qed

text \<open>
  With \<^verbatim>\<open>X_\<close> and \<^verbatim>\<open>y_\<close> both present, the objective is the negated mean of the scores.
\<close>

lemma objective_negated_mean:
  assumes "deref (adapters w) self = Some a" and "deref (estimators w) (estimator a) = Some e"
    and "sk_set_params E (sk_clone E e) kwargs = Inr e'"
    and "X_' a = Some X" and "y_' a = Some y"
    and "cross_val_score E e' X y (scoring a) (cv a) (n_jobs a) (verbose a) = Inr scores"
  shows "fst (objective E self kwargs w) = Inr (- mean scores)"
  using assms
  by (simp add: objective_def clone_def set_params_def new_estimator_def deref_def Let_def
      split: if_splits)

section \<open>The loop of the orchestration\<close>

text \<open>One pass of the loop, then the loop by induction on the list of names.\<close>

lemma main_body_outcome:
  assumes "map_of estimator_dict clf_name = Some est"
    and "map_of param_distributions clf_name = Some dists"
    and "deref (estimators w) est = Some e"
    and "randomized_search E e dists (settings n_splits random_state) X Y = Inr (best, best_params)"
    and "clf_name = ''rf'' \<Longrightarrow> sk_feature_importances E best = Some imp"
  shows "\<exists>w'. main_body E estimator_dict n_splits random_state X Y clf_name w = (Inr (), w') \<and>
           estimators w' = estimators w @ [best] \<and>
           files w' =
             (if clf_name = ''rf''
              then (files w)(''./documents/pictures/feature_importances.png'' \<mapsto>
                     Image \<lparr>bars = imp, xlim = (0, real (length imp)), ylim = (0, 2 / 100),
                            xlabel = ''Features'', ylabel = ''Feature importance''\<rparr>)
              else files w)
             (''./resources/estimators/'' @ clf_name @ ''.pkl'' \<mapsto> Pickle best) \<and>
           trace w' = trace w @ RandomizedSearchCV_call est #
             (if clf_name = ''rf''
              then [Savefig_call ''./documents/pictures/feature_importances.png''] else []) @
             [Dump_call (length (estimators w)) (''./resources/estimators/'' @ clf_name @ ''.pkl'')]"
proof -
  let ?b = "length (estimators w)"
  let ?w1 = "(record_call (RandomizedSearchCV_call est) w)\<lparr>estimators := estimators w @ [best]\<rparr>"
  have rs: "RandomizedSearchCV_fit E est dists (settings n_splits random_state) X Y w
              = (Inr (?b, best_params), ?w1)"
    using assms(3,4)
    by (simp add: RandomizedSearchCV_fit_def Let_def new_estimator_def record_call_def)
  show ?thesis
  proof (cases "clf_name = ''rf''")
    case True
    then have "sk_feature_importances E best = Some imp"
      by (rule assms(5))
    with True assms(1,2) rs show ?thesis
      by (simp add: main_body_def plot_feature_importance_def dump_def deref_def Let_def
          record_call_def)
  next
    case False
    with assms(1,2) rs show ?thesis
      by (simp add: main_body_def dump_def deref_def Let_def record_call_def)
  qed
qed

lemma estimator_path_inject:
  "''./resources/estimators/'' @ a @ ''.pkl'' = ''./resources/estimators/'' @ b @ ''.pkl'' \<longleftrightarrow> a = b"
  by simp

lemma estimator_path_not_picture:
  "''./resources/estimators/'' @ a @ ''.pkl'' \<noteq> ''./documents/pictures/feature_importances.png''"
  by simp

lemma main_loop_outcome:
  assumes "\<And>name. name \<in> set names \<Longrightarrow>
             map_of estimator_dict name = Some (est_of name) \<and>
             map_of param_distributions name = Some (dists_of name) \<and>
             deref (estimators w) (est_of name) = Some (template name) \<and>
             randomized_search E (template name) (dists_of name)
               (settings n_splits random_state) X Y = Inr (best name, best_params name)"
    and "''rf'' \<in> set names \<Longrightarrow> sk_feature_importances E (best ''rf'') = Some imp"
  shows "\<exists>w'. main_loop E estimator_dict n_splits random_state X Y names w = (Inr (), w') \<and>
           (\<forall>name \<in> set names.
              files w' (''./resources/estimators/'' @ name @ ''.pkl'') = Some (Pickle (best name))) \<and>
           files w' ''./documents/pictures/feature_importances.png'' =
             (if ''rf'' \<in> set names
              then Some (Image \<lparr>bars = imp, xlim = (0, real (length imp)), ylim = (0, 2 / 100),
                                xlabel = ''Features'', ylabel = ''Feature importance''\<rparr>)
              else files w ''./documents/pictures/feature_importances.png'') \<and>
           (\<forall>p. p \<noteq> ''./documents/pictures/feature_importances.png'' \<longrightarrow>
                (\<forall>name \<in> set names. p \<noteq> ''./resources/estimators/'' @ name @ ''.pkl'') \<longrightarrow>
                files w' p = files w p) \<and>
           trace w' = trace w @
             concat (map (\<lambda>(b, name).
                       RandomizedSearchCV_call (est_of name) #
                       (if name = ''rf''
                        then [Savefig_call ''./documents/pictures/feature_importances.png'']
                        else []) @
                       [Dump_call b (''./resources/estimators/'' @ name @ ''.pkl'')])
                     (enumerate (length (estimators w)) names))"
  using assms
proof (induction names arbitrary: w)
  case Nil
  then show ?case by simp
next
  case (Cons n ns)
  let ?pic = "''./documents/pictures/feature_importances.png''"
  let ?path = "\<lambda>name. ''./resources/estimators/'' @ name @ ''.pkl''"
  let ?chart = "Image \<lparr>bars = imp, xlim = (0, real (length imp)), ylim = (0, 2 / 100),
                        xlabel = ''Features'', ylabel = ''Feature importance''\<rparr>"
  have hn: "map_of estimator_dict n = Some (est_of n)"
    "map_of param_distributions n = Some (dists_of n)"
    "deref (estimators w) (est_of n) = Some (template n)"
    "randomized_search E (template n) (dists_of n) (settings n_splits random_state) X Y
       = Inr (best n, best_params n)"
    using Cons.prems(1) [of n] by simp_all
  have imp_n: "n = ''rf'' \<Longrightarrow> sk_feature_importances E (best n) = Some imp"
    using Cons.prems(2) by simp
  from main_body_outcome [OF hn imp_n]
  obtain w1 where body: "main_body E estimator_dict n_splits random_state X Y n w = (Inr (), w1)"
    and est1: "estimators w1 = estimators w @ [best n]"
    and files1: "files w1 = (if n = ''rf'' then (files w)(?pic \<mapsto> ?chart) else files w)
                   (?path n \<mapsto> Pickle (best n))"
    and trace1: "trace w1 = trace w @ RandomizedSearchCV_call (est_of n) #
                   (if n = ''rf'' then [Savefig_call ?pic] else []) @
                   [Dump_call (length (estimators w)) (?path n)]"
    by blast
  have rest: "map_of estimator_dict name = Some (est_of name) \<and>
              map_of param_distributions name = Some (dists_of name) \<and>
              deref (estimators w1) (est_of name) = Some (template name) \<and>
              randomized_search E (template name) (dists_of name)
                (settings n_splits random_state) X Y = Inr (best name, best_params name)"
    if "name \<in> set ns" for name
    using Cons.prems(1) [of name] that est1
    by (auto simp: deref_def nth_append split: if_splits)
  have rf_rest: "''rf'' \<in> set ns \<Longrightarrow> sk_feature_importances E (best ''rf'') = Some imp"
    using Cons.prems(2) by simp
  from Cons.IH [of w1, OF rest rf_rest]
  obtain w' where loop: "main_loop E estimator_dict n_splits random_state X Y ns w1 = (Inr (), w')"
    and pk: "\<forall>name \<in> set ns. files w' (?path name) = Some (Pickle (best name))"
    and pic: "files w' ?pic = (if ''rf'' \<in> set ns then Some ?chart else files w1 ?pic)"
    and frame: "\<forall>p. p \<noteq> ?pic \<longrightarrow> (\<forall>name \<in> set ns. p \<noteq> ?path name) \<longrightarrow> files w' p = files w1 p"
    and tr: "trace w' = trace w1 @
               concat (map (\<lambda>(b, name).
                         RandomizedSearchCV_call (est_of name) #
                         (if name = ''rf'' then [Savefig_call ?pic] else []) @
                         [Dump_call b (?path name)])
                       (enumerate (length (estimators w1)) ns))"
    by blast
  have whole: "main_loop E estimator_dict n_splits random_state X Y (n # ns) w = (Inr (), w')"
    using body loop by simp
  have pk_n: "files w' (?path n) = Some (Pickle (best n))"
  proof (cases "n \<in> set ns")
    case True
    with pk show ?thesis by blast
  next
    case False
    then have "\<forall>name \<in> set ns. ?path n \<noteq> ?path name"
      by auto
    with frame have "files w' (?path n) = files w1 (?path n)"
      by (simp only: estimator_path_not_picture not_False_eq_True simp_thms) 
    then show ?thesis
      using files1 by simp
  qed
  have pic': "files w' ?pic = (if ''rf'' \<in> set (n # ns) then Some ?chart else files w ?pic)"
    using pic files1 by (auto simp del: append.simps simp add: estimator_path_not_picture [symmetric])
  have frame': "files w' p = files w p"
    if "p \<noteq> ?pic" and "\<forall>name \<in> set (n # ns). p \<noteq> ?path name" for p
  proof -
    have "files w' p = files w1 p"
      using frame that by simp
    also have "\<dots> = files w p"
      using files1 that by auto
    finally show ?thesis .
  qed
  have tr': "trace w' = trace w @
               concat (map (\<lambda>(b, name).
                         RandomizedSearchCV_call (est_of name) #
                         (if name = ''rf'' then [Savefig_call ?pic] else []) @
                         [Dump_call b (?path name)])
                       (enumerate (length (estimators w)) (n # ns)))"
    using tr trace1 est1 by simp
  from whole pk pk_n pic' frame' tr' show ?case
    by (intro exI [of _ w'] conjI) auto
qed

text \<open>
  \<^verbatim>\<open>main\<close> as written, with \<^verbatim>\<open>clf_names = ['svm']\<close>: one search, no figure, one dump.
\<close>

lemma main_runs_svm:
  assumes "files w ''./resources/train/data.pkl'' = Some (Table X)"
    and "files w ''./resources/train/target.pkl'' = Some (Table T)"
    and "randomized_search E (sk_new E ''SVR'' svm_args)
           [(''C'', Choice decades), (''gamma'', Choice decades)]
           (settings 5 1) X (concat T) = Inr (best, best_params)"
  shows "\<exists>w'. main E w = (Inr (), w') \<and>
           files w' ''./resources/estimators/svm.pkl'' = Some (Pickle best) \<and>
           files w' ''./documents/pictures/feature_importances.png'' =
             files w ''./documents/pictures/feature_importances.png'' \<and>
           trace w' = trace w @
             [RandomizedSearchCV_call (length (estimators w)),
              Dump_call (length (estimators w) + 3) ''./resources/estimators/svm.pkl'']"
  using assms
  by (simp add: main_def read_pickle_def new_estimator_def clf_names_def main_body_def
      param_distributions_def RandomizedSearchCV_fit_def deref_def Let_def record_call_def dump_def
      nth_append)

section \<open>Claims\<close>

text \<open>
  C2. For every dataset that passes the validation and every budget \<open>n_iter \<ge> 1\<close>,
  \<^verbatim>\<open>fit\<close> on an adapter that has no attribute \<^verbatim>\<open>y_\<close> (as \<^verbatim>\<open>__init__\<close> leaves it, and as
  \<^verbatim>\<open>fit\<close> leaves it, since \<^verbatim>\<open>fit\<close> assigns \<^verbatim>\<open>Y_\<close>) raises during the search: the backend has
  been called, the dataset is bound, \<^verbatim>\<open>best_params_\<close> and \<^verbatim>\<open>best_estimator_\<close> are as
  before, so the adapter does not become fitted. The exception is the
  \<^verbatim>\<open>AttributeError\<close> for \<^verbatim>\<open>y_\<close> whenever the clone accepted the first proposed
  configuration.
\<close>

theorem fit_raises_in_search:
  assumes "deref (adapters w) self = Some a" and "y_' a = None"
    and "check_X_y X Y = Inr (X1, Y1)" and "1 \<le> n_iter a"
  shows "\<exists>e w'. fit E self X Y w = (Inl e, w') \<and>
           deref (adapters w') self = Some (a\<lparr>X_' := Some X1, Y_' := Some Y1\<rparr>) \<and>
           trace w' = trace w @ [Fmin_call] \<and>
           (\<forall>est est'. deref (estimators w) (estimator a) = Some est \<longrightarrow>
              sk_set_params E (sk_clone E est) (tpe_suggest E (space a) []) = Inr est' \<longrightarrow>
              e = AttributeError ''y_'')"
  using fit_without_y [OF assms(1,2,4,3), of E] by blast

theorem fit_raises_in_search_witness:
  "deref (adapters world1) 0 = Some adapter1 \<and> y_' adapter1 = None \<and>
   check_X_y X2 Y2 = Inr (X2, Y2) \<and> 1 \<le> n_iter adapter1 \<and>
   (\<exists>e w'. fit mean_env 0 X2 Y2 world1 = (Inl e, w') \<and>
      deref (adapters w') 0 = Some (adapter1\<lparr>X_' := Some X2, Y_' := Some Y2\<rparr>) \<and>
      trace w' = trace world1 @ [Fmin_call] \<and>
      (\<forall>est est'. deref (estimators world1) (estimator adapter1) = Some est \<longrightarrow>
         sk_set_params mean_env (sk_clone mean_env est)
           (tpe_suggest mean_env (space adapter1) []) = Inr est' \<longrightarrow>
         e = AttributeError ''y_''))"
proof -
  have y: "y_' adapter1 = None" and n: "1 \<le> n_iter adapter1"
    by (simp_all add: adapter1_def)
  from fit_raises_in_search [OF world1_adapter y check_X2_Y2 n, of mean_env]
    world1_adapter y check_X2_Y2 n
  show ?thesis
    by (intro conjI)
qed

text \<open>
  C3. When the number of feature rows differs from the number of targets, \<^verbatim>\<open>fit\<close>
  fails with the \<^verbatim>\<open>ValueError\<close> of the input validation (the specification's
  ShapeMismatchError) and the state is as before the call: nothing was bound, and the
  optimisation backend was not called.
\<close>

theorem fit_shape_mismatch:
  assumes "self < length (adapters w)" and "length X \<noteq> length Y"
  shows "\<exists>msg. fit E self X Y w = (Inl (ValueError msg), w)"
proof (cases "check_array X")
  case (Inl e)
  then obtain msg where "e = ValueError msg"
    by (auto simp: check_array_def split: list.splits if_splits)
  with Inl assms show ?thesis
    by (simp add: fit_def check_X_y_def deref_def)
next
  case (Inr X')
  then have "X' = X"
    by (auto simp: check_array_def split: list.splits if_splits)
  with Inr assms show ?thesis
    by (simp add: fit_def check_X_y_def deref_def)
qed

theorem fit_shape_mismatch_witness:
  "(0::nat) < length (adapters world1) \<and> length X10 \<noteq> length Y9 \<and>
   (\<exists>msg. fit mean_env 0 X10 Y9 world1 = (Inl (ValueError msg), world1))"
proof -
  have a: "(0::nat) < length (adapters world1)"
    by (simp add: world1_def HyperoptSearchCV_def world0_def)
  have b: "length X10 \<noteq> length Y9"
    by (simp add: X10_def Y9_def)
  from fit_shape_mismatch [OF a b, of mean_env] a b show ?thesis
    by blast
qed

text \<open>
  C4. On an adapter that is not fitted, that is, one that lacks \<^verbatim>\<open>best_params_\<close> or
  \<^verbatim>\<open>best_estimator_\<close>, \<^verbatim>\<open>predict\<close> fails with \<^verbatim>\<open>NotFittedError\<close> for every input,
  and the state is as before the call: no estimator's \<^verbatim>\<open>predict\<close> was called.
\<close>

theorem predict_not_fitted:
  assumes "deref (adapters w) self = Some a"
    and "best_params_' a = None \<or> best_estimator_' a = None"
  shows "predict E self X w = (Inl NotFittedError, w)"
  using assms by (auto simp: predict_def check_is_fitted_def split: option.splits)

theorem predict_not_fitted_witness:
  "deref (adapters world1) 0 = Some adapter1 \<and>
   (best_params_' adapter1 = None \<or> best_estimator_' adapter1 = None) \<and>
   predict mean_env 0 X2 world1 = (Inl NotFittedError, world1)"
proof -
  have u: "best_params_' adapter1 = None \<or> best_estimator_' adapter1 = None"
    by (simp add: adapter1_def)
  from predict_not_fitted [OF world1_adapter u, of mean_env X2] world1_adapter u
  show ?thesis
    by (intro conjI)
qed

text \<open>
  C10. On a model without the attribute \<^verbatim>\<open>feature_importances_\<close>,
  \<^verbatim>\<open>plot_feature_importance\<close> fails with \<^verbatim>\<open>AttributeError\<close> (the specification's
  UnsupportedOperationError) before \<^verbatim>\<open>savefig\<close>: no file is written and nothing is drawn.
\<close>

theorem plot_feature_importance_unsupported:
  assumes "deref (estimators w) clf = Some e" and "sk_feature_importances E e = None"
  shows "\<exists>w'. plot_feature_importance E clf path w
                 = (Inl (AttributeError ''feature_importances_''), w') \<and>
              files w' = files w \<and> trace w' = trace w"
  using assms by (simp add: plot_feature_importance_def Let_def)

theorem plot_feature_importance_unsupported_witness:
  "deref (estimators world0) 0 = Some svr \<and> sk_feature_importances mean_env svr = None \<and>
   (\<exists>w'. plot_feature_importance mean_env 0 ''out.png'' world0
            = (Inl (AttributeError ''feature_importances_''), w') \<and>
          files w' = files world0 \<and> trace w' = trace world0)"
proof -
  have e: "deref (estimators world0) 0 = Some svr"
    by (simp add: world0_def deref_def)
  have i: "sk_feature_importances mean_env svr = None"
    by (simp add: mean_env_def svr_def)
  from plot_feature_importance_unsupported [OF e i, of "''out.png''"] e i show ?thesis
    by (intro conjI)
qed

text \<open>
  C7. When \<^verbatim>\<open>fit\<close> returns, it returns the adapter it was called on, and that adapter
  has \<^verbatim>\<open>best_params_\<close> and \<^verbatim>\<open>best_estimator_\<close> and no longer has \<^verbatim>\<open>X_\<close> and \<^verbatim>\<open>Y_\<close>.
  It returns only on an adapter that was given the attribute \<^verbatim>\<open>y_\<close> from outside the
  class, as in the instance below; without it \<^verbatim>\<open>fit\<close> raises (C2).
\<close>

theorem fit_returns_fitted_self:
  assumes "fit E self X Y w = (Inr r, w')"
  shows "r = self \<and>
         (\<exists>a'. deref (adapters w') self = Some a' \<and> best_params_' a' \<noteq> None \<and>
            best_estimator_' a' \<noteq> None \<and> X_' a' = None \<and> Y_' a' = None)"
  using fit_success [OF assms] by auto

theorem fit_returns_fitted_self_witness:
  "fit mean_env 0 X10 Y10 world1y = (Inr 0, world2) \<and>
   (\<exists>a'. deref (adapters world2) 0 = Some a' \<and> best_params_' a' \<noteq> None \<and>
      best_estimator_' a' \<noteq> None \<and> X_' a' = None \<and> Y_' a' = None)"
  using fit_returns_fitted_self [OF fit_world1y] fit_world1y by simp

text \<open>
  C8. On a fitted adapter, a second \<^verbatim>\<open>predict\<close> with the same input gives the result of
  the first, and neither call changes an adapter or an estimator object: the adapter
  remains fitted. (The estimator's own \<^verbatim>\<open>predict\<close> is a function of the object and the
  input, and values are reals, so equal results stand for bit-identical ones.)
\<close>

theorem predict_idempotent:
  assumes "deref (adapters w) self = Some a" and "check_is_fitted a = Inr ()"
    and "predict E self X w = (r1, w1)" and "predict E self X w1 = (r2, w2)"
  shows "r2 = r1 \<and> adapters w1 = adapters w \<and> adapters w2 = adapters w \<and>
         estimators w1 = estimators w \<and> estimators w2 = estimators w \<and>
         (\<exists>a2. deref (adapters w2) self = Some a2 \<and> check_is_fitted a2 = Inr ())"
proof -
  have f1: "adapters w1 = adapters w" "estimators w1 = estimators w"
    using assms(3) by (rule predict_frame)+
  have f2: "adapters w2 = adapters w1" "estimators w2 = estimators w1"
    using assms(4) by (rule predict_frame)+
  have "fst (predict E self X w1) = fst (predict E self X w)"
    using f1 by (rule predict_reads)
  then have "r2 = r1"
    using assms(3,4) by simp
  then show ?thesis
    using f1 f2 assms(1,2) by simp
qed

theorem predict_idempotent_witness:
  "deref (adapters world2) 0 = Some adapter2 \<and> check_is_fitted adapter2 = Inr () \<and>
   predict mean_env 0 X10 world2 = (Inr (replicate 10 (11 / 2)), world3) \<and>
   predict mean_env 0 X10 world3 = (Inr (replicate 10 (11 / 2)), world4) \<and>
   adapters world3 = adapters world2 \<and> adapters world4 = adapters world2 \<and>
   estimators world3 = estimators world2 \<and> estimators world4 = estimators world2 \<and>
   (\<exists>a2. deref (adapters world4) 0 = Some a2 \<and> check_is_fitted a2 = Inr ())"
proof -
  have a: "deref (adapters world2) 0 = Some adapter2"
    by (simp add: adapters_world2 deref_def)
  have f: "check_is_fitted adapter2 = Inr ()"
    by (simp add: check_is_fitted_def adapter2_def)
  from predict_idempotent [OF a f predict_world2 predict_world3] a f predict_world2 predict_world3
  show ?thesis
    by simp
qed

text \<open>
  C1. The objective is the negated mean of the cross-validation scores only on an adapter
  that has the attribute \<^verbatim>\<open>y_\<close> (\<open>objective_negated_mean\<close>). In the state \<^verbatim>\<open>fit\<close> calls it
  in, with \<^verbatim>\<open>X_\<close> and \<^verbatim>\<open>Y_\<close> bound, it returns nothing: it raises \<^verbatim>\<open>AttributeError\<close>.
\<close>

theorem objective_raises_after_bind:
  "fst (objective mean_env 0 [(''C'', PFloat 2)] (bind_dataset 0 X2 Y2 world1))
     = Inl (AttributeError ''y_'')"
  by (simp add: model_defs example_defs Let_def)

text \<open>
  C5. On an adapter as \<^verbatim>\<open>__init__\<close> leaves it and a dataset that passes the validation,
  \<^verbatim>\<open>fit\<close> raises \<^verbatim>\<open>AttributeError\<close>, and \<^verbatim>\<open>predict\<close> on the adapter it leaves raises
  \<^verbatim>\<open>NotFittedError\<close>: no prediction vector is returned.
\<close>

theorem fit_then_predict_raises:
  "check_X_y X2 Y2 = Inr (X2, Y2) \<and>
   fst (fit mean_env 0 X2 Y2 world1) = Inl (AttributeError ''y_'') \<and>
   fst (predict mean_env 0 X2 (snd (fit mean_env 0 X2 Y2 world1))) = Inl NotFittedError"
  by (simp add: model_defs example_defs Let_def numeral_3_eq_3)

text \<open>
  C6. When the search completes, \<^verbatim>\<open>fit\<close> makes no copy: it calls \<^verbatim>\<open>set_params\<close> and
  \<^verbatim>\<open>fit\<close> on the object the adapter holds as \<^verbatim>\<open>estimator\<close>, and \<^verbatim>\<open>best_estimator_\<close> is
  that same object (in general, \<open>fit_success\<close>). Here the dataset has ten rows, enough
  for the three folds of every trial, and the adapter was given \<^verbatim>\<open>y_\<close>, so the search
  completes. The template had \<open>C = 10\<close> and was unfitted before the call; afterwards
  that very object has the winning \<open>C = 2\<close> and is fitted on the whole dataset, and no
  object was added to the store but the three clones of the trials.
\<close>

theorem refit_reuses_template:
  "check_X_y X10 Y10 = Inr (X10, Y10) \<and>
   fit mean_env 0 X10 Y10 world1y = (Inr 0, world2) \<and>
   map estimator (adapters world1y) = [0] \<and>
   map best_estimator_' (adapters world2) = [Some 0] \<and>
   map best_params_' (adapters world2) = [Some [(''C'', PFloat 2)]] \<and>
   estimators world1y ! 0 =
     \<lparr>cls = ''SVR'', params = [(''C'', PFloat 10)], fitted_mean = None, n_features = 0\<rparr> \<and>
   estimators world2 ! 0 =
     \<lparr>cls = ''SVR'', params = [(''C'', PFloat 2)], fitted_mean = Some (11 / 2),
      n_features = 2\<rparr> \<and>
   length (estimators world1y) = 2 \<and> length (estimators world2) = 5"
proof -
  have "map estimator (adapters world1y) = [0]"
    and "estimators world1y ! 0 =
      \<lparr>cls = ''SVR'', params = [(''C'', PFloat 10)], fitted_mean = None, n_features = 0\<rparr>"
    and "length (estimators world1y) = 2"
    by (simp_all add: world1y_def world1_def world0_def svr_def HyperoptSearchCV_def
        update_adapter_def deref_def)
  moreover have "map best_estimator_' (adapters world2) = [Some 0]"
    and "map best_params_' (adapters world2) = [Some [(''C'', PFloat 2)]]"
    by (simp_all add: adapters_world2 adapter2_def)
  ultimately show ?thesis
    using fit_world1y estimators_world2 length_estimators_world2 check_X10_Y10 by simp
qed

text \<open>
  C9. For every list of family names the loop of \<^verbatim>\<open>main\<close> is run on, each name being a key
  of the two dictionaries whose search returns: the loop returns; for every name of the
  list the file \<^verbatim>\<open>./resources/estimators/<name>.pkl\<close> holds the best estimator of that
  name's search; the picture \<^verbatim>\<open>./documents/pictures/feature_importances.png\<close> holds
  the bar chart of the importances of the best estimator of \<^verbatim>\<open>rf\<close> if \<^verbatim>\<open>rf\<close> is in the
  list, and is as it was before if not; no other file is touched; and the calls made
  are, name by name, the search, the \<^verbatim>\<open>savefig\<close> for \<^verbatim>\<open>rf\<close> alone, and the dump.
  \<^verbatim>\<open>main\<close> itself, with the list \<^verbatim>\<open>['svm']\<close> of line 203, reads the two training files,
  writes \<^verbatim>\<open>svm.pkl\<close> and leaves the picture alone.
\<close>

theorem main_loop_persists:
  assumes "\<forall>name \<in> set names.
             map_of estimator_dict name = Some (est_of name) \<and>
             map_of param_distributions name = Some (dists_of name) \<and>
             deref (estimators w) (est_of name) = Some (template name) \<and>
             randomized_search E (template name) (dists_of name)
               (settings n_splits random_state) X Y = Inr (best name, best_params name)"
    and "''rf'' \<in> set names \<longrightarrow> sk_feature_importances E (best ''rf'') = Some imp"
  shows "(\<exists>w'. main_loop E estimator_dict n_splits random_state X Y names w = (Inr (), w') \<and>
            (\<forall>name \<in> set names.
               files w' (''./resources/estimators/'' @ name @ ''.pkl'')
                 = Some (Pickle (best name))) \<and>
            files w' ''./documents/pictures/feature_importances.png'' =
              (if ''rf'' \<in> set names
               then Some (Image \<lparr>bars = imp, xlim = (0, real (length imp)), ylim = (0, 2 / 100),
                                 xlabel = ''Features'', ylabel = ''Feature importance''\<rparr>)
               else files w ''./documents/pictures/feature_importances.png'') \<and>
            (\<forall>p. p \<noteq> ''./documents/pictures/feature_importances.png'' \<longrightarrow>
                 (\<forall>name \<in> set names. p \<noteq> ''./resources/estimators/'' @ name @ ''.pkl'') \<longrightarrow>
                 files w' p = files w p) \<and>
            trace w' = trace w @
              concat (map (\<lambda>(b, name).
                        RandomizedSearchCV_call (est_of name) #
                        (if name = ''rf''
                         then [Savefig_call ''./documents/pictures/feature_importances.png'']
                         else []) @
                        [Dump_call b (''./resources/estimators/'' @ name @ ''.pkl'')])
                      (enumerate (length (estimators w)) names))) \<and>
         (\<forall>X_train T svm_best svm_params.
            files w ''./resources/train/data.pkl'' = Some (Table X_train) \<longrightarrow>
            files w ''./resources/train/target.pkl'' = Some (Table T) \<longrightarrow>
            randomized_search E (sk_new E ''SVR'' svm_args)
              [(''C'', Choice decades), (''gamma'', Choice decades)]
              (settings 5 1) X_train (concat T) = Inr (svm_best, svm_params) \<longrightarrow>
            (\<exists>w'. main E w = (Inr (), w') \<and>
               files w' ''./resources/estimators/svm.pkl'' = Some (Pickle svm_best) \<and>
               files w' ''./documents/pictures/feature_importances.png'' =
                 files w ''./documents/pictures/feature_importances.png'' \<and>
               trace w' = trace w @
                 [RandomizedSearchCV_call (length (estimators w)),
                  Dump_call (length (estimators w) + 3) ''./resources/estimators/svm.pkl'']))"
proof (rule conjI)
  show "\<exists>w'. main_loop E estimator_dict n_splits random_state X Y names w = (Inr (), w') \<and>
            (\<forall>name \<in> set names.
               files w' (''./resources/estimators/'' @ name @ ''.pkl'')
                 = Some (Pickle (best name))) \<and>
            files w' ''./documents/pictures/feature_importances.png'' =
              (if ''rf'' \<in> set names
               then Some (Image \<lparr>bars = imp, xlim = (0, real (length imp)), ylim = (0, 2 / 100),
                                 xlabel = ''Features'', ylabel = ''Feature importance''\<rparr>)
               else files w ''./documents/pictures/feature_importances.png'') \<and>
            (\<forall>p. p \<noteq> ''./documents/pictures/feature_importances.png'' \<longrightarrow>
                 (\<forall>name \<in> set names. p \<noteq> ''./resources/estimators/'' @ name @ ''.pkl'') \<longrightarrow>
                 files w' p = files w p) \<and>
            trace w' = trace w @
              concat (map (\<lambda>(b, name).
                        RandomizedSearchCV_call (est_of name) #
                        (if name = ''rf''
                         then [Savefig_call ''./documents/pictures/feature_importances.png'']
                         else []) @
                        [Dump_call b (''./resources/estimators/'' @ name @ ''.pkl'')])
                      (enumerate (length (estimators w)) names))"
  proof (rule main_loop_outcome)
    fix name
    assume "name \<in> set names"
    with assms(1) show "map_of estimator_dict name = Some (est_of name) \<and>
        map_of param_distributions name = Some (dists_of name) \<and>
        deref (estimators w) (est_of name) = Some (template name) \<and>
        randomized_search E (template name) (dists_of name)
          (settings n_splits random_state) X Y = Inr (best name, best_params name)"
      by (rule bspec)
  next
    assume "''rf'' \<in> set names"
    with assms(2) show "sk_feature_importances E (best ''rf'') = Some imp"
      by (rule mp)
  qed
next
  show "\<forall>X_train T svm_best svm_params.
            files w ''./resources/train/data.pkl'' = Some (Table X_train) \<longrightarrow>
            files w ''./resources/train/target.pkl'' = Some (Table T) \<longrightarrow>
            randomized_search E (sk_new E ''SVR'' svm_args)
              [(''C'', Choice decades), (''gamma'', Choice decades)]
              (settings 5 1) X_train (concat T) = Inr (svm_best, svm_params) \<longrightarrow>
            (\<exists>w'. main E w = (Inr (), w') \<and>
               files w' ''./resources/estimators/svm.pkl'' = Some (Pickle svm_best) \<and>
               files w' ''./documents/pictures/feature_importances.png'' =
                 files w ''./documents/pictures/feature_importances.png'' \<and>
               trace w' = trace w @
                 [RandomizedSearchCV_call (length (estimators w)),
                  Dump_call (length (estimators w) + 3) ''./resources/estimators/svm.pkl''])"
    by (intro allI impI) (rule main_runs_svm)
qed


theorem main_loop_persists_witness:
  "map_of [(''svm'', 0), (''rf'', 1)] ''svm'' = Some (0::nat) \<and>
   map_of param_distributions ''svm'' = Some svm_dists \<and>
   deref (estimators world0f) 0 = Some svr \<and>
   randomized_search mean_env svr svm_dists (settings 5 1) X40 Y10 = Inr (svr_fitted, []) \<and>
   map_of [(''svm'', 0), (''rf'', 1)] ''rf'' = Some (1::nat) \<and>
   map_of param_distributions ''rf'' = Some rf_dists \<and>
   deref (estimators world0f) 1 = Some forest \<and>
   randomized_search mean_env forest rf_dists (settings 5 1) X40 Y10 = Inr (forest_fitted, []) \<and>
   sk_feature_importances mean_env forest_fitted = Some (replicate 40 (1 / 40)) \<and>
   (\<exists>w'. main_loop mean_env [(''svm'', 0), (''rf'', 1)] 5 1 X40 Y10 [''svm'', ''rf''] world0f
            = (Inr (), w') \<and>
      files w' ''./resources/estimators/svm.pkl'' = Some (Pickle svr_fitted) \<and>
      files w' ''./resources/estimators/rf.pkl'' = Some (Pickle forest_fitted) \<and>
      files w' ''./documents/pictures/feature_importances.png'' = Some (Image forest_chart) \<and>
      files w' ''./resources/train/data.pkl'' = Some (Table X40) \<and>
      trace w' = [RandomizedSearchCV_call 0, Dump_call 2 ''./resources/estimators/svm.pkl'',
                  RandomizedSearchCV_call 1,
                  Savefig_call ''./documents/pictures/feature_importances.png'',
                  Dump_call 3 ''./resources/estimators/rf.pkl'']) \<and>
   files world0f ''./resources/train/data.pkl'' = Some (Table X40) \<and>
   files world0f ''./resources/train/target.pkl'' = Some (Table (map (\<lambda>y. [y]) Y10)) \<and>
   randomized_search mean_env (sk_new mean_env ''SVR'' svm_args) svm_dists (settings 5 1) X40
     (concat (map (\<lambda>y. [y]) Y10))
     = Inr ((sk_new mean_env ''SVR'' svm_args)\<lparr>fitted_mean := Some (11 / 2), n_features := 40\<rparr>, []) \<and>
   (\<exists>w'. main mean_env world0f = (Inr (), w') \<and>
      files w' ''./resources/estimators/svm.pkl''
        = Some (Pickle ((sk_new mean_env ''SVR'' svm_args)\<lparr>fitted_mean := Some (11 / 2), n_features := 40\<rparr>)) \<and>
      files w' ''./documents/pictures/feature_importances.png'' = None \<and>
      trace w' = [RandomizedSearchCV_call 2, Dump_call 5 ''./resources/estimators/svm.pkl''])"
proof -
  let ?dict = "[(''svm'', 0), (''rf'', 1::nat)]"
  let ?est_of = "\<lambda>name. if name = ''svm'' then 0 else (1::nat)"
  let ?dists_of = "\<lambda>name. if name = ''svm'' then svm_dists else rf_dists"
  let ?template = "\<lambda>name. if name = ''svm'' then svr else forest"
  let ?best = "\<lambda>name. if name = ''svm'' then svr_fitted else forest_fitted"
  let ?best_params = "\<lambda>name :: string. [] :: config"
  let ?svm_new = "(sk_new mean_env ''SVR'' svm_args)\<lparr>fitted_mean := Some (11 / 2), n_features := 40\<rparr>"
  have len: "length X40 = 10" "length Y10 = 10" "mean Y10 = 11 / 2" "width X40 = 40"
    by (simp_all add: X40_def Y10_def mean_def width_def numeral_eq_Suc)
  have s1: "map_of ?dict ''svm'' = Some 0" and r1: "map_of ?dict ''rf'' = Some 1"
    by simp_all
  have s2: "map_of param_distributions ''svm'' = Some svm_dists"
    and r2: "map_of param_distributions ''rf'' = Some rf_dists"
    by (simp_all add: param_distributions_def svm_dists_def rf_dists_def)
  have s3: "deref (estimators world0f) 0 = Some svr"
    and r3: "deref (estimators world0f) 1 = Some forest"
    by (simp_all add: world0f_def world0_def deref_def)
  have s4: "randomized_search mean_env svr svm_dists (settings 5 1) X40 Y10 = Inr (svr_fitted, [])"
    and r4: "randomized_search mean_env forest rf_dists (settings 5 1) X40 Y10
               = Inr (forest_fitted, [])"
    by (simp_all add: mean_env_def svr_fitted_def forest_fitted_def len svm_dists_def rf_dists_def)
  have r5: "sk_feature_importances mean_env forest_fitted = Some (replicate 40 (1 / 40))"
    by (simp add: mean_env_def forest_fitted_def forest_def)
  have f1: "files world0f ''./resources/train/data.pkl'' = Some (Table X40)"
    and f2: "files world0f ''./resources/train/target.pkl'' = Some (Table (map (\<lambda>y. [y]) Y10))"
    and f3: "files world0f ''./documents/pictures/feature_importances.png'' = None"
    by (simp_all add: world0f_def world0_def)
  have flat: "concat (map (\<lambda>y. [y]) Y10) = Y10"
    by (simp add: Y10_def)
  have m3: "randomized_search mean_env (sk_new mean_env ''SVR'' svm_args) svm_dists (settings 5 1)
              X40 (concat (map (\<lambda>y. [y]) Y10)) = Inr (?svm_new, [])"
    unfolding flat by (simp add: mean_env_def len svm_dists_def)
  have hyp: "\<forall>name \<in> set [''svm'', ''rf''].
             map_of ?dict name = Some (?est_of name) \<and>
             map_of param_distributions name = Some (?dists_of name) \<and>
             deref (estimators world0f) (?est_of name) = Some (?template name) \<and>
             randomized_search mean_env (?template name) (?dists_of name) (settings 5 1) X40 Y10
               = Inr (?best name, ?best_params name)"
    using s1 s2 s3 s4 r1 r2 r3 r4 by simp
  have rf: "''rf'' \<in> set [''svm'', ''rf''] \<longrightarrow>
            sk_feature_importances mean_env (?best ''rf'') = Some (replicate 40 (1 / 40))"
    using r5 by simp
  note inst = main_loop_persists [where names = "[''svm'', ''rf'']" and estimator_dict = "?dict"
      and est_of = "?est_of" and dists_of = "?dists_of" and w = world0f
      and template = "?template" and E = mean_env and n_splits = 5 and random_state = 1
      and X = X40 and Y = Y10 and best = "?best" and best_params = "?best_params"
      and imp = "replicate 40 (1 / 40)", OF hyp rf]
  from inst [THEN conjunct1] obtain w' where
    loop: "main_loop mean_env ?dict 5 1 X40 Y10 [''svm'', ''rf''] world0f = (Inr (), w')"
    and pk: "\<forall>name \<in> set [''svm'', ''rf''].
               files w' (''./resources/estimators/'' @ name @ ''.pkl'') = Some (Pickle (?best name))"
    and pic: "files w' ''./documents/pictures/feature_importances.png'' =
               (if ''rf'' \<in> set [''svm'', ''rf'']
                then Some (Image \<lparr>bars = replicate 40 (1 / 40),
                                  xlim = (0, real (length (replicate 40 (1 / 40 :: real)))),
                                  ylim = (0, 2 / 100), xlabel = ''Features'',
                                  ylabel = ''Feature importance''\<rparr>)
                else files world0f ''./documents/pictures/feature_importances.png'')"
    and frame: "\<forall>p. p \<noteq> ''./documents/pictures/feature_importances.png'' \<longrightarrow>
                 (\<forall>name \<in> set [''svm'', ''rf'']. p \<noteq> ''./resources/estimators/'' @ name @ ''.pkl'') \<longrightarrow>
                 files w' p = files world0f p"
    and tr: "trace w' = trace world0f @
              concat (map (\<lambda>(b, name).
                        RandomizedSearchCV_call (?est_of name) #
                        (if name = ''rf''
                         then [Savefig_call ''./documents/pictures/feature_importances.png'']
                         else []) @
                        [Dump_call b (''./resources/estimators/'' @ name @ ''.pkl'')])
                      (enumerate (length (estimators world0f)) [''svm'', ''rf'']))"
    by (elim exE conjE)
  have l1: "files w' ''./resources/estimators/svm.pkl'' = Some (Pickle svr_fitted)"
    and l2: "files w' ''./resources/estimators/rf.pkl'' = Some (Pickle forest_fitted)"
    using pk by simp_all
  have l3: "files w' ''./documents/pictures/feature_importances.png'' = Some (Image forest_chart)"
    using pic by (simp add: forest_chart_def)
  have "files w' ''./resources/train/data.pkl'' = files world0f ''./resources/train/data.pkl''"
    using frame [rule_format, of "''./resources/train/data.pkl''"] by simp
  then have l4: "files w' ''./resources/train/data.pkl'' = Some (Table X40)"
    using f1 by simp
  have l5: "trace w' = [RandomizedSearchCV_call 0, Dump_call 2 ''./resources/estimators/svm.pkl'',
                  RandomizedSearchCV_call 1,
                  Savefig_call ''./documents/pictures/feature_importances.png'',
                  Dump_call 3 ''./resources/estimators/rf.pkl'']"
    using tr by (simp add: world0f_def world0_def)
  from inst [THEN conjunct2, rule_format, OF f1 f2 m3 [unfolded svm_dists_def]] obtain wm where
    m: "main mean_env world0f = (Inr (), wm)"
    and m1: "files wm ''./resources/estimators/svm.pkl'' = Some (Pickle ?svm_new)"
    and m2: "files wm ''./documents/pictures/feature_importances.png'' =
               files world0f ''./documents/pictures/feature_importances.png''"
    and m4: "trace wm = trace world0f @
               [RandomizedSearchCV_call (length (estimators world0f)),
                Dump_call (length (estimators world0f) + 3) ''./resources/estimators/svm.pkl'']"
    by (elim exE conjE)
  have m5: "trace wm = [RandomizedSearchCV_call 2, Dump_call 5 ''./resources/estimators/svm.pkl'']"
    using m4 by (simp add: world0f_def world0_def)
  have m6: "files wm ''./documents/pictures/feature_importances.png'' = None"
    using m2 f3 by simp
  have part1: "\<exists>w'. main_loop mean_env ?dict 5 1 X40 Y10 [''svm'', ''rf''] world0f = (Inr (), w') \<and>
      files w' ''./resources/estimators/svm.pkl'' = Some (Pickle svr_fitted) \<and>
      files w' ''./resources/estimators/rf.pkl'' = Some (Pickle forest_fitted) \<and>
      files w' ''./documents/pictures/feature_importances.png'' = Some (Image forest_chart) \<and>
      files w' ''./resources/train/data.pkl'' = Some (Table X40) \<and>
      trace w' = [RandomizedSearchCV_call 0, Dump_call 2 ''./resources/estimators/svm.pkl'',
                  RandomizedSearchCV_call 1,
                  Savefig_call ''./documents/pictures/feature_importances.png'',
                  Dump_call 3 ''./resources/estimators/rf.pkl'']"
    using loop l1 l2 l3 l4 l5 by (intro exI [of _ w'] conjI)
  have part2: "\<exists>w'. main mean_env world0f = (Inr (), w') \<and>
      files w' ''./resources/estimators/svm.pkl'' = Some (Pickle ?svm_new) \<and>
      files w' ''./documents/pictures/feature_importances.png'' = None \<and>
      trace w' = [RandomizedSearchCV_call 2, Dump_call 5 ''./resources/estimators/svm.pkl'']"
    using m m1 m6 m5 by (intro exI [of _ wm] conjI)
  show ?thesis
    using s1 s2 s3 s4 r1 r2 r3 r4 r5 part1 f1 f2 m3 part2
    by (intro conjI)
qed

end
